theory Spec2Isabelle
  imports Main
begin

section \<open>JavaScript values used by the Para wallet connector bridge\<close>

text \<open>
  The development embeds \<^verbatim>\<open>src/app/components/orderlyProvider/paraConnector.tsx\<close>.

  A JavaScript number that occurs in the connector is a chain id: the result of
  \<^verbatim>\<open>parseInt\<close> or a value handed in by the SDK.  Such a number is an integer or
  \<^verbatim>\<open>NaN\<close>; integers are kept exact (the rounding of doubles beyond \<open>2^53\<close> is not
  part of the model).  HOL equality on \<open>number\<close> is the SameValueZero comparison of
  \<^verbatim>\<open>Array.prototype.includes\<close> and the \<^verbatim>\<open>Object.is\<close> comparison of hook
  dependencies: \<open>NaN\<close> equals itself.
\<close>

datatype number = NaN | Num int

definition truthyNumber :: "number \<Rightarrow> bool" where
  "truthyNumber n \<longleftrightarrow> n \<noteq> NaN \<and> n \<noteq> Num 0"

text \<open>The operator \<^verbatim>\<open>!==\<close>: \<^verbatim>\<open>NaN !== NaN\<close> is true.\<close>

definition strictNotEqual :: "number \<Rightarrow> number \<Rightarrow> bool" where
  "strictNotEqual a b \<longleftrightarrow> a = NaN \<or> b = NaN \<or> a \<noteq> b"

text \<open>The operator \<^verbatim>\<open><\<close> on numbers: every comparison with \<^verbatim>\<open>NaN\<close> is false.\<close>

fun lessThan_num :: "number \<Rightarrow> int \<Rightarrow> bool" where
  "lessThan_num NaN k = False"
| "lessThan_num (Num v) k = (v < k)"

definition includes_arr :: "number list \<Rightarrow> number \<Rightarrow> bool" where
  "includes_arr xs x \<longleftrightarrow> x \<in> set xs"

definition truthyString :: "string option \<Rightarrow> bool" where
  "truthyString s \<longleftrightarrow> (case s of None \<Rightarrow> False | Some v \<Rightarrow> v \<noteq> [])"

subsection \<open>Strings\<close>

text \<open>
  A character of a string is a code unit below 256.  The white space and line terminators
  of JavaScript in that range are tab, line feed, vertical tab, form feed, carriage
  return, space and the no-break space \<^verbatim>\<open>U+00A0\<close>; the white space beyond it
  (\<^verbatim>\<open>U+FEFF\<close>, \<^verbatim>\<open>U+2028\<close> and the like) is outside the string type.
\<close>

definition isWhiteSpace :: "char \<Rightarrow> bool" where
  "isWhiteSpace c \<longleftrightarrow>
     c \<in> set [CHR '' '', CHR 0x09, CHR 0x0A, CHR 0x0B, CHR 0x0C, CHR 0x0D, CHR 0xA0]"

definition trim :: "string \<Rightarrow> string" where
  "trim s = rev (dropWhile isWhiteSpace (rev (dropWhile isWhiteSpace s)))"

text \<open>\<^verbatim>\<open>s.split(',')\<close>: the empty string splits into one empty piece.\<close>

fun split_acc :: "char \<Rightarrow> string \<Rightarrow> string \<Rightarrow> string list" where
  "split_acc sep cur [] = [rev cur]"
| "split_acc sep cur (c # cs) =
     (if c = sep then rev cur # split_acc sep [] cs else split_acc sep (c # cur) cs)"

definition split :: "char \<Rightarrow> string \<Rightarrow> string list" where
  "split sep s = split_acc sep [] s"

text \<open>\<^verbatim>\<open>s.slice(-2)\<close> and \<^verbatim>\<open>s.slice(0, -2)\<close>; a string shorter than two characters is
  its own tail and has an empty front.\<close>

definition sliceLast2 :: "string \<Rightarrow> string" where
  "sliceLast2 s = drop (length s - 2) s"

definition sliceButLast2 :: "string \<Rightarrow> string" where
  "sliceButLast2 s = take (length s - 2) s"

definition padStart2 :: "string \<Rightarrow> string" where
  "padStart2 s = replicate (2 - length s) CHR ''0'' @ s"

subsection \<open>\<^verbatim>\<open>parseInt(string, radix)\<close> and \<^verbatim>\<open>Number.prototype.toString(radix)\<close>\<close>

fun indexOf :: "char \<Rightarrow> string \<Rightarrow> nat option" where
  "indexOf c [] = None"
| "indexOf c (d # ds) = (if c = d then Some 0 else map_option Suc (indexOf c ds))"

definition digitValue :: "char \<Rightarrow> nat option" where
  "digitValue c =
     (case indexOf c ''0123456789abcdefghijklmnopqrstuvwxyz'' of
        Some d \<Rightarrow> Some d
      | None \<Rightarrow> indexOf c ''0123456789ABCDEFGHIJKLMNOPQRSTUVWXYZ'')"

definition radixDigit :: "nat \<Rightarrow> char \<Rightarrow> bool" where
  "radixDigit R c \<longleftrightarrow> (case digitValue c of None \<Rightarrow> False | Some d \<Rightarrow> d < R)"

definition digitsValue :: "nat \<Rightarrow> string \<Rightarrow> nat" where
  "digitsValue R z = foldl (\<lambda>acc c. acc * R + (case digitValue c of None \<Rightarrow> 0 | Some d \<Rightarrow> d)) 0 z"

text \<open>
  \<^verbatim>\<open>parseInt\<close> with an explicit radix 10 or 16 (the only calls of the connector):
  leading white space is skipped, one sign is read, for radix 16 a prefix \<^verbatim>\<open>0x\<close> or
  \<^verbatim>\<open>0X\<close> is dropped, the longest run of digits of the radix is the number, anything
  after it is ignored, and no digit at all is \<^verbatim>\<open>NaN\<close>.
\<close>

definition parseInt :: "string \<Rightarrow> nat \<Rightarrow> number" where
  "parseInt inputString R =
     (let S = dropWhile isWhiteSpace inputString;
          negative = (take 1 S = ''-'');
          S1 = (if take 1 S = ''-'' \<or> take 1 S = ''+'' then drop 1 S else S);
          S2 = (if R = 16 \<and> (take 2 S1 = ''0x'' \<or> take 2 S1 = ''0X'') then drop 2 S1 else S1);
          Z = takeWhile (radixDigit R) S2
      in if Z = [] then NaN
         else Num (if negative then - int (digitsValue R Z) else int (digitsValue R Z)))"

function natToString :: "nat \<Rightarrow> nat \<Rightarrow> string" where
  "natToString R n =
     (if n < R \<or> R < 2 then [''0123456789abcdefghijklmnopqrstuvwxyz'' ! n]
      else natToString R (n div R) @ [''0123456789abcdefghijklmnopqrstuvwxyz'' ! (n mod R)])"
  by pat_completeness auto
termination
  by (relation "measure (\<lambda>(R, n). n)") auto

declare natToString.simps [simp del]

definition toString :: "number \<Rightarrow> nat \<Rightarrow> string" where
  "toString x R =
     (case x of
        NaN \<Rightarrow> ''NaN''
      | Num v \<Rightarrow> (if v < 0 then ''-'' @ natToString R (nat (- v)) else natToString R (nat v)))"

text \<open>\<^verbatim>\<open>v + 27\<close> on numbers.\<close>

fun plus27 :: "number \<Rightarrow> number" where
  "plus27 NaN = NaN"
| "plus27 (Num v) = Num (v + 27)"


section \<open>Data model\<close>

datatype NetworkId = mainnet | testnet

definition networkName :: "NetworkId \<Rightarrow> string" where
  "networkName n = (case n of mainnet \<Rightarrow> ''mainnet'' | testnet \<Rightarrow> ''testnet'')"

datatype ChainNamespace = evm | solana

datatype chainKind = EVM | SOLANA

text \<open>
  Every \<^verbatim>\<open>throw\<close> of the connector and every rejection of a call into the SDK, the
  signer, the RPC client or the browser storage is an error value.
\<close>

datatype error =
    ProviderStateNotInitialized
  | SignerNotAvailable
  | ChainNotAvailable number NetworkId "number list"
  | Upstream string

text \<open>
  \<^verbatim>\<open>getRuntimeConfig\<close> lives in \<^verbatim>\<open>@/utils/runtime-config\<close>; the three keys the bridge
  reads are a parameter, \<open>None\<close> for a key that is not set.
\<close>

record RuntimeConfig =
  VITE_ORDERLY_MAINNET_CHAINS :: "string option"
  VITE_ORDERLY_TESTNET_CHAINS :: "string option"
  VITE_DEFAULT_CHAIN :: "string option"

text \<open>The objects of the Para SDK (\<^verbatim>\<open>useAccount\<close>, \<^verbatim>\<open>useWallet\<close>, \<^verbatim>\<open>useClient\<close>);
  an optional property is an \<open>option\<close>.\<close>

record ParaWallet =
  w_chainType :: "chainKind option"
  w_type :: "chainKind option"
  w_address :: "string option"

record ParaEmbedded =
  e_isConnected :: "bool option"
  e_isGuestMode :: "bool option"
  e_wallets :: "ParaWallet list option"
  e_address :: "string option"

datatype Connector = Connector (connector_name: "string option")

record EvmAccount =
  evm_address :: "string option"
  evm_connector :: "Connector option"
  evm_chainId :: "number option"

text \<open>A Solana public key prints as a base58 string, which is never empty.\<close>

datatype PublicKey = PublicKey char string

fun publicKey_toString :: "PublicKey \<Rightarrow> string" where
  "publicKey_toString (PublicKey c cs) = c # cs"

record SolanaAccount =
  sol_publicKey :: "PublicKey option"
  sol_name :: "string option"

record External =
  ext_evm :: "EvmAccount option"
  ext_solana :: "SolanaAccount option"

record Account =
  isConnected :: bool
  isLoading :: bool
  external :: "External option"
  embedded :: "ParaEmbedded option"

text \<open>The Para client: \<open>logout\<close> is \<open>None\<close> when the client has no such function,
  otherwise what the call does: resolve (\<open>None\<close>) or reject with an error.\<close>

datatype ParaClient = ParaClient (logout: "error option option")

text \<open>What the component reads from its props and hooks at one render.\<close>

record Hooks =
  networkId :: NetworkId
  runtimeConfig :: RuntimeConfig
  account :: Account
  walletQuery_data :: "ParaWallet option"
  paraClient :: "ParaClient option"

record JsonRpcProvider =
  rpc_url :: string
  rpc_network :: number

record ParaEthersSigner =
  signer_client :: ParaClient
  signer_provider :: JsonRpcProvider

text \<open>The ProviderStateSnapshot held by \<^verbatim>\<open>providerStateRef\<close>.\<close>

record ProviderState =
  chainId :: number
  rpcUrl :: string
  signer :: "ParaEthersSigner option"
  ethersProvider :: JsonRpcProvider

text \<open>
  The provider object held by \<^verbatim>\<open>stableProviderRef\<close>.  Its identity is the address at
  which it was allocated; its functions close over the refs of the component (shared by
  every provider object of one mount) and over the variable \<^verbatim>\<open>address\<close> of the
  recomputation that created it.
\<close>

record EIP1193Provider =
  object_id :: nat
  closure_address :: string

datatype ChainRef = NumericChain number | NamedChain string

record WalletState =
  label :: string
  icon :: string
  provider :: EIP1193Provider
  accounts :: "string list"
  chains :: "(ChainRef \<times> ChainNamespace) list"

text \<open>\<^verbatim>\<open>localStorage\<close>: the items, and whether \<^verbatim>\<open>getItem\<close> and \<^verbatim>\<open>setItem\<close> throw
  (storage disabled, quota exceeded).\<close>

record Storage =
  items :: "string \<rightharpoonup> string"
  getItem_throws :: bool
  setItem_throws :: bool

definition getItem :: "Storage \<Rightarrow> string \<Rightarrow> error + string option" where
  "getItem st k = (if getItem_throws st then Inl (Upstream ''getItem'') else Inr (items st k))"

definition setItem :: "Storage \<Rightarrow> string \<Rightarrow> string \<Rightarrow> error + Storage" where
  "setItem st k v =
     (if setItem_throws st then Inl (Upstream ''setItem'')
      else Inr (st\<lparr>items := (items st)(k \<mapsto> v)\<rparr>))"

text \<open>A listener is a function object, known by its identity.  What the bridge does to
  the outside is recorded in a trace.\<close>

type_synonym listener = nat

datatype effect =
    ListenerCalled listener string
  | LogoutCalled

text \<open>
  The state of one mounted \<^verbatim>\<open>ParaWalletBridge\<close>: its \<^verbatim>\<open>useState\<close> cells, its refs,
  the dependency React remembers for the \<^verbatim>\<open>chainChanged\<close> effect, the browser storage,
  the next free object address and the trace.  A \<^verbatim>\<open>Set\<close> of listeners is a list
  without duplicates, in insertion order.
\<close>

record Bridge =
  connecting :: bool
  settingChain :: bool
  selectedChainId :: number
  eventListenersRef :: "string \<rightharpoonup> listener list"
  prevChainIdRef :: number
  providerStateRef :: "ProviderState option"
  stableProviderRef :: "EIP1193Provider option"
  effectDeps :: "number option"
  localStorage :: Storage
  nextObject :: nat
  trace :: "effect list"

section \<open>Chain configuration and the Selected Chain Identifier\<close>

text \<open>\<^verbatim>\<open>chainsConfig?.split(',').map(id => parseInt(id.trim(), 10)) || []\<close>\<close>

definition availableChainIds :: "Hooks \<Rightarrow> number list" where
  "availableChainIds h =
     (let chainsConfig = (if networkId h = mainnet
                          then VITE_ORDERLY_MAINNET_CHAINS (runtimeConfig h)
                          else VITE_ORDERLY_TESTNET_CHAINS (runtimeConfig h))
      in case chainsConfig of
           None \<Rightarrow> []
         | Some c \<Rightarrow> map (\<lambda>id. parseInt (trim id) 10) (split CHR '','' c))"

text \<open>The operator \<^verbatim>\<open>||\<close> on an optional string: an absent or empty string gives way.\<close>

definition orElse :: "string option \<Rightarrow> string \<Rightarrow> string" where
  "orElse s d = (case s of None \<Rightarrow> d | Some v \<Rightarrow> if v = [] then d else v)"

definition defaultChainId :: "Hooks \<Rightarrow> number" where
  "defaultChainId h =
     (let configDefault = parseInt (orElse (VITE_DEFAULT_CHAIN (runtimeConfig h)) ''1329'') 10
      in if includes_arr (availableChainIds h) configDefault then configDefault
         else (case availableChainIds h of
                 [] \<Rightarrow> configDefault
               | first # _ \<Rightarrow> if truthyNumber first then first else configDefault))"

definition storageKey :: "Hooks \<Rightarrow> string" where
  "storageKey h = ''para_selected_chain_'' @ networkName (networkId h)"

definition getInitialChainId :: "Hooks \<Rightarrow> Storage \<Rightarrow> number" where
  "getInitialChainId h st =
     (case getItem st (storageKey h) of
        Inl err \<Rightarrow> defaultChainId h
      | Inr None \<Rightarrow> defaultChainId h
      | Inr (Some stored) \<Rightarrow>
          if stored \<noteq> [] \<and> includes_arr (availableChainIds h) (parseInt stored 10)
          then parseInt stored 10
          else defaultChainId h)"

definition setAndPersistChainId :: "Hooks \<Rightarrow> number \<Rightarrow> Bridge \<Rightarrow> Bridge" where
  "setAndPersistChainId h c s =
     (let s1 = s\<lparr>selectedChainId := c\<rparr>
      in case setItem (localStorage s1) (storageKey h) (toString c 10) of
           Inl err \<Rightarrow> s1
         | Inr st \<Rightarrow> s1\<lparr>localStorage := st\<rparr>)"

text \<open>The argument of \<^verbatim>\<open>setChain\<close>: \<^verbatim>\<open>{chainId: string | number}\<close>.\<close>

datatype chainIdArg = StringId string | NumberId number

definition requestedChainId :: "chainIdArg \<Rightarrow> number" where
  "requestedChainId a = (case a of StringId s \<Rightarrow> parseInt s 16 | NumberId n \<Rightarrow> n)"

text \<open>
  \<^verbatim>\<open>setChain\<close>: \<^verbatim>\<open>settingChain\<close> is raised on entry and lowered in the
  \<^verbatim>\<open>finally\<close> block on both paths; the error is rethrown.  The warning for an external
  connector only logs.
\<close>

definition setChain :: "Hooks \<Rightarrow> chainIdArg \<Rightarrow> Bridge \<Rightarrow> Bridge \<times> (error + bool)" where
  "setChain h options s =
     (let s1 = s\<lparr>settingChain := True\<rparr>;
          requested = requestedChainId options
      in if \<not> includes_arr (availableChainIds h) requested
         then (s1\<lparr>settingChain := False\<rparr>,
               Inl (ChainNotAvailable requested (networkId h) (availableChainIds h)))
         else ((setAndPersistChainId h requested s1)\<lparr>settingChain := False\<rparr>, Inr True))"


section \<open>Deriving the wallet state\<close>

definition evmAccount :: "Account \<Rightarrow> EvmAccount option" where
  "evmAccount acc = (case external acc of None \<Rightarrow> None | Some x \<Rightarrow> ext_evm x)"

definition solanaAccount :: "Account \<Rightarrow> SolanaAccount option" where
  "solanaAccount acc = (case external acc of None \<Rightarrow> None | Some x \<Rightarrow> ext_solana x)"

text \<open>\<^verbatim>\<open>account.external?.evm?.address\<close> and \<^verbatim>\<open>account.external?.solana?.publicKey\<close>\<close>

definition hasEvm :: "Account \<Rightarrow> string option" where
  "hasEvm acc = (case evmAccount acc of None \<Rightarrow> None | Some e \<Rightarrow> evm_address e)"

definition hasSolana :: "Account \<Rightarrow> PublicKey option" where
  "hasSolana acc = (case solanaAccount acc of None \<Rightarrow> None | Some so \<Rightarrow> sol_publicKey so)"

text \<open>\<^verbatim>\<open>account.embedded?.isConnected && !account.embedded?.isGuestMode\<close>\<close>

definition hasEmbedded :: "Account \<Rightarrow> bool" where
  "hasEmbedded acc =
     (case embedded acc of
        None \<Rightarrow> False
      | Some e \<Rightarrow> e_isConnected e = Some True \<and> e_isGuestMode e \<noteq> Some True)"

text \<open>The local variables of the recomputation, with their initial values.\<close>

record Locals =
  address :: "string option"
  namespace :: ChainNamespace
  walletName :: string
  chainRef :: ChainRef

definition initialLocals :: Locals where
  "initialLocals =
     \<lparr>address = None, namespace = evm, walletName = ''Para Wallet'',
      chainRef = NumericChain (Num 1)\<rparr>"

definition isEvmWallet :: "ParaWallet \<Rightarrow> bool" where
  "isEvmWallet w \<longleftrightarrow> w_chainType w = Some EVM \<or> w_type w = Some EVM"

text \<open>Approach 1: the first EVM entry of \<^verbatim>\<open>embedded.wallets\<close>.\<close>

definition approach1 :: "ParaEmbedded \<Rightarrow> number \<Rightarrow> Locals \<Rightarrow> Locals" where
  "approach1 e sel L =
     (case e_wallets e of
        None \<Rightarrow> L
      | Some ws \<Rightarrow>
          if ws = [] then L
          else (case find isEvmWallet ws of
                  None \<Rightarrow> L
                | Some evmWallet \<Rightarrow>
                    if truthyString (w_address evmWallet)
                    then L\<lparr>address := w_address evmWallet, namespace := evm,
                           walletName := ''Para Embedded'', chainRef := NumericChain sel\<rparr>
                    else L))"

text \<open>Approach 2: \<^verbatim>\<open>walletQuery.data\<close>.\<close>

definition approach2 :: "ParaWallet option \<Rightarrow> number \<Rightarrow> Locals \<Rightarrow> Locals" where
  "approach2 wq sel L =
     (if truthyString (address L) then L
      else (case wq of
              None \<Rightarrow> L
            | Some wallet \<Rightarrow>
                if truthyString (w_address wallet)
                then L\<lparr>address := w_address wallet,
                       namespace := (if w_chainType wallet = Some SOLANA then solana else evm),
                       walletName := ''Para Embedded'', chainRef := NumericChain sel\<rparr>
                else L))"

text \<open>Approach 3: \<^verbatim>\<open>embedded.address\<close>.\<close>

definition approach3 :: "ParaEmbedded \<Rightarrow> number \<Rightarrow> Locals \<Rightarrow> Locals" where
  "approach3 e sel L =
     (if \<not> truthyString (address L) \<and> truthyString (e_address e)
      then L\<lparr>address := e_address e, namespace := evm,
             walletName := ''Para Embedded'', chainRef := NumericChain sel\<rparr>
      else L)"

text \<open>
  Lines 254 to 336 of the recomputation: \<open>None\<close> is the early \<^verbatim>\<open>return null\<close> (no
  wallet detected, or no address found), otherwise the locals with a truthy address.
\<close>

definition resolveWallet :: "Account \<Rightarrow> ParaWallet option \<Rightarrow> number \<Rightarrow> Locals option" where
  "resolveWallet acc wq sel =
     (if \<not> truthyString (hasEvm acc) \<and> hasSolana acc = None \<and> \<not> hasEmbedded acc \<and> wq = None
      then None
      else
        let L =
          (if truthyString (hasEvm acc)
           then (case evmAccount acc of
                   None \<Rightarrow> initialLocals
                 | Some e \<Rightarrow>
                     initialLocals\<lparr>address := evm_address e, namespace := evm,
                       walletName := orElse (case evm_connector e of None \<Rightarrow> None
                                                | Some c \<Rightarrow> connector_name c) ''Para EVM'',
                       chainRef := NumericChain
                         (case evm_chainId e of
                            None \<Rightarrow> Num 1
                          | Some c \<Rightarrow> if truthyNumber c then c else Num 1)\<rparr>)
           else (case hasSolana acc of
                   Some pk \<Rightarrow>
                     initialLocals\<lparr>address := Some (publicKey_toString pk), namespace := solana,
                       walletName := orElse (case solanaAccount acc of None \<Rightarrow> None
                                                | Some so \<Rightarrow> sol_name so) ''Para Solana'',
                       chainRef := NamedChain ''solana-mainnet''\<rparr>
                 | None \<Rightarrow>
                     if hasEmbedded acc
                     then (case embedded acc of
                             None \<Rightarrow> initialLocals
                           | Some e \<Rightarrow>
                               approach3 e sel (approach2 wq sel (approach1 e sel initialLocals)))
                     else initialLocals))
        in if truthyString (address L) then Some L else None)"

text \<open>\<^verbatim>\<open>getRpcUrl\<close>: the table of the network, then the mainnet table, then the default.\<close>

definition mainnetRpcUrls :: "(int \<times> string) list" where
  "mainnetRpcUrls =
     [(1, ''https://ethereum-rpc.publicnode.com''),
      (1329, ''https://evm-rpc.sei-apis.com''),
      (80094, ''https://berachain.drpc.org''),
      (8453, ''https://mainnet.base.org''),
      (56, ''https://bsc-dataseed1.binance.org'')]"

definition testnetRpcUrls :: "(int \<times> string) list" where
  "testnetRpcUrls =
     [(421614, ''https://sepolia-rollup.arbitrum.io/rpc''),
      (97, ''https://data-seed-prebsc-1-s1.binance.org:8545''),
      (10143, ''https://sepolia.base.org''),
      (11124, ''https://rpc.test.abs.xyz''),
      (901901901, ''https://rpc.test.abs.xyz'')]"

definition lookupUrl :: "(int \<times> string) list \<Rightarrow> number \<Rightarrow> string option" where
  "lookupUrl table c = (case c of NaN \<Rightarrow> None | Num v \<Rightarrow> map_of table v)"

definition getRpcUrl :: "NetworkId \<Rightarrow> number \<Rightarrow> string" where
  "getRpcUrl net c =
     (let rpcUrls = (if net = mainnet then mainnetRpcUrls else testnetRpcUrls)
      in case lookupUrl rpcUrls c of
           Some u \<Rightarrow> u
         | None \<Rightarrow> (case lookupUrl mainnetRpcUrls c of
                      Some u \<Rightarrow> u
                    | None \<Rightarrow> ''https://ethereum-rpc.publicnode.com''))"

text \<open>\<^verbatim>\<open>paraClient && account.isConnected && account.embedded?.wallets?.length\<close>\<close>

definition makeSigner :: "Hooks \<Rightarrow> JsonRpcProvider \<Rightarrow> ParaEthersSigner option" where
  "makeSigner h prov =
     (case paraClient h of
        None \<Rightarrow> None
      | Some client \<Rightarrow>
          if isConnected (account h)
             \<and> (case embedded (account h) of
                  None \<Rightarrow> False
                | Some e \<Rightarrow> (case e_wallets e of None \<Rightarrow> False | Some ws \<Rightarrow> ws \<noteq> []))
          then Some \<lparr>signer_client = client, signer_provider = prov\<rparr>
          else None)"

text \<open>The resolved address, a string once the recomputation is past line 336.\<close>

definition addressOf :: "Locals \<Rightarrow> string" where
  "addressOf L = (case address L of None \<Rightarrow> [] | Some a \<Rightarrow> a)"

text \<open>The snapshot built at lines 340 to 364.\<close>

definition snapshotOf :: "Hooks \<Rightarrow> Locals \<Rightarrow> ProviderState" where
  "snapshotOf h L =
     (let actualChainId = (case chainRef L of NumericChain c \<Rightarrow> c
                                           | NamedChain n \<Rightarrow> defaultChainId h);
          url = getRpcUrl (networkId h) actualChainId;
          prov = \<lparr>rpc_url = url, rpc_network = actualChainId\<rparr>
      in \<lparr>chainId = actualChainId, rpcUrl = url,
          signer = makeSigner h prov, ethersProvider = prov\<rparr>)"

text \<open>
  One recomputation of the \<^verbatim>\<open>walletState\<close> memo (lines 250 to 552).  With a wallet
  resolved it assigns a new snapshot to \<^verbatim>\<open>providerStateRef\<close>, allocates the provider
  object when \<^verbatim>\<open>stableProviderRef\<close> is empty, and returns the wallet state.  The
  constructors of the ethers objects are taken to return.
\<close>

definition walletState :: "Hooks \<Rightarrow> Bridge \<Rightarrow> Bridge \<times> WalletState option" where
  "walletState h s =
     (case resolveWallet (account h) (walletQuery_data h) (selectedChainId s) of
        None \<Rightarrow> (s, None)
      | Some L \<Rightarrow>
          let s1 = s\<lparr>providerStateRef := Some (snapshotOf h L)\<rparr>;
              p = (case stableProviderRef s1 of
                     None \<Rightarrow> \<lparr>object_id = nextObject s1, closure_address = addressOf L\<rparr>
                   | Some existing \<Rightarrow> existing);
              s2 = (case stableProviderRef s1 of
                      None \<Rightarrow> s1\<lparr>stableProviderRef := Some p,
                                  nextObject := Suc (nextObject s1)\<rparr>
                    | Some existing \<Rightarrow> s1)
          in (s2, Some \<lparr>label = walletName L, icon = [], provider = p,
                        accounts = [addressOf L],
                        chains = [(chainRef L, namespace L)]\<rparr>))"

section \<open>The provider shim\<close>

datatype jsvalue = JUndefined | JString string | JArray "jsvalue list" | JObject nat

record Request =
  req_method :: string
  req_params :: "jsvalue list option"

text \<open>
  The calls that leave the connector, as functions of what is handed to them:
  \<^item> \<open>signMessage\<close>: \<^verbatim>\<open>currentSigner.signMessage(ethers.getBytes(message))\<close>;
  \<^item> \<open>signTypedData\<close>: parsing the payload, dropping \<^verbatim>\<open>EIP712Domain\<close> from the types and
    \<^verbatim>\<open>currentSigner.signTypedData(domain, filteredTypes, typedMessage)\<close>;
  \<^item> \<open>sendTransaction\<close>: \<^verbatim>\<open>currentSigner.sendTransaction\<close>, \<^verbatim>\<open>tx.wait()\<close> and the hash of
    the receipt;
  \<^item> \<open>send\<close>: \<^verbatim>\<open>currentEthersProvider.send(method, params)\<close>.
  Each one returns or throws.
\<close>

record Sdk =
  signMessage :: "ParaEthersSigner \<Rightarrow> jsvalue \<Rightarrow> error + string"
  signTypedData :: "ParaEthersSigner \<Rightarrow> jsvalue \<Rightarrow> error + string"
  sendTransaction :: "ParaEthersSigner \<Rightarrow> jsvalue \<Rightarrow> error + jsvalue"
  send :: "JsonRpcProvider \<Rightarrow> string \<Rightarrow> jsvalue list \<Rightarrow> error + jsvalue"

definition paramsOf :: "Request \<Rightarrow> jsvalue list" where
  "paramsOf rq = (case req_params rq of None \<Rightarrow> [] | Some ps \<Rightarrow> ps)"

definition param0 :: "Request \<Rightarrow> jsvalue" where
  "param0 rq = (case paramsOf rq of [] \<Rightarrow> JUndefined | x # _ \<Rightarrow> x)"

definition param1 :: "Request \<Rightarrow> jsvalue" where
  "param1 rq = (case paramsOf rq of x # y # _ \<Rightarrow> y | _ \<Rightarrow> JUndefined)"

text \<open>
  The block that follows both signing calls:
  \<^verbatim>\<open>const v = parseInt(signature.slice(-2), 16);
  if (v < 27) { signature = signature.slice(0, -2) + (v + 27).toString(16).padStart(2, '0'); }\<close>
\<close>

definition normalizeV :: "string \<Rightarrow> string" where
  "normalizeV signature =
     (let v = parseInt (sliceLast2 signature) 16
      in if lessThan_num v 27
         then sliceButLast2 signature @ padStart2 (toString (plus27 v) 16)
         else signature)"

text \<open>
  \<^verbatim>\<open>request\<close> of the provider object \<open>p\<close>, called when the component is in state \<open>s\<close>:
  the snapshot is read from the ref at the time of the call, the address is the one the
  closure holds.  The extra \<^verbatim>\<open>fetch\<close> before a forwarded \<^verbatim>\<open>eth_call\<close> only logs, and its
  failure is caught.
\<close>

definition request :: "Sdk \<Rightarrow> EIP1193Provider \<Rightarrow> Bridge \<Rightarrow> Request \<Rightarrow> error + jsvalue" where
  "request sdk p s rq =
     (case providerStateRef s of
        None \<Rightarrow> Inl ProviderStateNotInitialized
      | Some currentState \<Rightarrow>
          (case signer currentState of
             None \<Rightarrow> Inl SignerNotAvailable
           | Some currentSigner \<Rightarrow>
               if req_method rq = ''personal_sign'' \<or> req_method rq = ''eth_sign''
               then (case signMessage sdk currentSigner (param0 rq) of
                       Inl err \<Rightarrow> Inl err
                     | Inr signature \<Rightarrow> Inr (JString (normalizeV signature)))
               else if req_method rq = ''eth_signTypedData'' \<or> req_method rq = ''eth_signTypedData_v4''
               then (case signTypedData sdk currentSigner (param1 rq) of
                       Inl err \<Rightarrow> Inl err
                     | Inr signature \<Rightarrow> Inr (JString (normalizeV signature)))
               else if req_method rq = ''eth_sendTransaction''
               then sendTransaction sdk currentSigner (param0 rq)
               else if req_method rq = ''eth_accounts'' \<or> req_method rq = ''eth_requestAccounts''
               then Inr (JArray [JString (closure_address p)])
               else if req_method rq = ''eth_chainId''
               then Inr (JString (''0x'' @ toString (chainId currentState) 16))
               else send sdk (ethersProvider currentState) (req_method rq) (paramsOf rq)))"

definition listenersOf :: "Bridge \<Rightarrow> string \<Rightarrow> listener list" where
  "listenersOf s eventName = (case eventListenersRef s eventName of None \<Rightarrow> [] | Some ls \<Rightarrow> ls)"

definition on :: "string \<Rightarrow> listener \<Rightarrow> Bridge \<Rightarrow> Bridge" where
  "on eventName l s =
     s\<lparr>eventListenersRef := (eventListenersRef s)
          (eventName \<mapsto> (if l \<in> set (listenersOf s eventName) then listenersOf s eventName
                          else listenersOf s eventName @ [l]))\<rparr>"

definition removeListener :: "string \<Rightarrow> listener \<Rightarrow> Bridge \<Rightarrow> Bridge" where
  "removeListener eventName l s =
     (case eventListenersRef s eventName of
        None \<Rightarrow> s
      | Some ls \<Rightarrow> s\<lparr>eventListenersRef := (eventListenersRef s)(eventName \<mapsto> removeAll l ls)\<rparr>)"

text \<open>Calling every listener of an event; what a listener throws is caught, and the
  next one is called.\<close>

definition callListeners :: "listener list \<Rightarrow> string \<Rightarrow> Bridge \<Rightarrow> Bridge" where
  "callListeners ls arg s = s\<lparr>trace := trace s @ map (\<lambda>l. ListenerCalled l arg) ls\<rparr>"

definition emit :: "string \<Rightarrow> string \<Rightarrow> Bridge \<Rightarrow> Bridge" where
  "emit eventName arg s = callListeners (listenersOf s eventName) arg s"

section \<open>Effects, mounting and disconnecting\<close>

text \<open>The body of the effect at lines 137 to 159.\<close>

definition chainChangedEffect :: "Bridge \<Rightarrow> Bridge" where
  "chainChangedEffect s =
     (if strictNotEqual (selectedChainId s) (prevChainIdRef s)
      then (callListeners (listenersOf s ''chainChanged'')
              (''0x'' @ toString (selectedChainId s) 16) s)
             \<lparr>prevChainIdRef := selectedChainId s\<rparr>
      else s)"

text \<open>React runs the effect after the first render and after every render in which its
  dependency \<^verbatim>\<open>selectedChainId\<close> is not \<^verbatim>\<open>Object.is\<close> the one of the render before.\<close>

definition useEffect_chainChanged :: "Bridge \<Rightarrow> Bridge" where
  "useEffect_chainChanged s =
     (if effectDeps s = Some (selectedChainId s) then s
      else (chainChangedEffect s)\<lparr>effectDeps := Some (selectedChainId s)\<rparr>)"

text \<open>A render in which the wallet-state memo is recomputed, and its commit.\<close>

definition render :: "Hooks \<Rightarrow> Bridge \<Rightarrow> Bridge \<times> WalletState option" where
  "render h s = (let (s1, w) = walletState h s in (useEffect_chainChanged s1, w))"

definition initialBridge :: "Hooks \<Rightarrow> Storage \<Rightarrow> Bridge" where
  "initialBridge h st =
     \<lparr>connecting = False, settingChain = False,
      selectedChainId = getInitialChainId h st,
      eventListenersRef = Map.empty,
      prevChainIdRef = defaultChainId h,
      providerStateRef = None, stableProviderRef = None,
      effectDeps = None, localStorage = st, nextObject = 0, trace = []\<rparr>"

definition mount :: "Hooks \<Rightarrow> Storage \<Rightarrow> Bridge \<times> WalletState option" where
  "mount h st = render h (initialBridge h st)"

text \<open>\<^verbatim>\<open>paraClient && typeof paraClient.logout === 'function'\<close>: the logout function, if
  there is one.\<close>

definition logoutOf :: "Hooks \<Rightarrow> error option option" where
  "logoutOf h = (case paraClient h of None \<Rightarrow> None | Some client \<Rightarrow> logout client)"

text \<open>
  \<^verbatim>\<open>disconnect\<close>: a rejected \<^verbatim>\<open>logout\<close> is rethrown before the refs are touched.
  Whatever is rendered while \<^verbatim>\<open>logout\<close> is awaited, both refs are empty when
  \<^verbatim>\<open>disconnect\<close> resolves.
\<close>

definition disconnect :: "Hooks \<Rightarrow> Bridge \<Rightarrow> Bridge \<times> (error + jsvalue list)" where
  "disconnect h s =
     (case logoutOf h of
        None \<Rightarrow> (s\<lparr>stableProviderRef := None, providerStateRef := None\<rparr>, Inr [])
      | Some outcome \<Rightarrow>
          let s1 = s\<lparr>trace := trace s @ [LogoutCalled]\<rparr>
          in (case outcome of
                Some err \<Rightarrow> (s1, Inl err)
              | None \<Rightarrow> (s1\<lparr>stableProviderRef := None, providerStateRef := None\<rparr>, Inr [])))"

section \<open>The derivation order as the specification words it\<close>

text \<open>
  The specification gives the derivation as a list of sources tried in order, the first
  that matches winning.  These definitions follow its words; \<open>resolveWallet\<close> above
  follows the code.
\<close>

fun firstMatch :: "'a option list \<Rightarrow> 'a option" where
  "firstMatch [] = None"
| "firstMatch (None # rest) = firstMatch rest"
| "firstMatch (Some x # rest) = Some x"

definition nonEmpty :: "string option \<Rightarrow> string option" where
  "nonEmpty a = (case a of None \<Rightarrow> None | Some v \<Rightarrow> if v = [] then None else Some v)"

definition externalEvm_spec :: "Account \<Rightarrow> (string \<times> ChainNamespace) option" where
  "externalEvm_spec acc = map_option (\<lambda>a. (a, evm)) (nonEmpty (hasEvm acc))"

definition externalSolana_spec :: "Account \<Rightarrow> (string \<times> ChainNamespace) option" where
  "externalSolana_spec acc = map_option (\<lambda>pk. (publicKey_toString pk, solana)) (hasSolana acc)"

definition walletsLookup_spec :: "ParaEmbedded \<Rightarrow> (string \<times> ChainNamespace) option" where
  "walletsLookup_spec e =
     (case e_wallets e of
        None \<Rightarrow> None
      | Some ws \<Rightarrow>
          (case find isEvmWallet ws of
             None \<Rightarrow> None
           | Some w \<Rightarrow> map_option (\<lambda>a. (a, evm)) (nonEmpty (w_address w))))"

definition walletQuery_spec :: "ParaWallet option \<Rightarrow> (string \<times> ChainNamespace) option" where
  "walletQuery_spec wq =
     (case wq of
        None \<Rightarrow> None
      | Some w \<Rightarrow>
          map_option (\<lambda>a. (a, if w_chainType w = Some SOLANA then solana else evm))
            (nonEmpty (w_address w)))"

definition directAddress_spec :: "ParaEmbedded \<Rightarrow> (string \<times> ChainNamespace) option" where
  "directAddress_spec e = map_option (\<lambda>a. (a, evm)) (nonEmpty (e_address e))"

definition embedded_spec :: "Account \<Rightarrow> ParaWallet option \<Rightarrow> (string \<times> ChainNamespace) option" where
  "embedded_spec acc wq =
     (case embedded acc of
        None \<Rightarrow> None
      | Some e \<Rightarrow>
          if hasEmbedded acc
          then firstMatch [walletsLookup_spec e, walletQuery_spec wq, directAddress_spec e]
          else None)"

definition deriveWallet_spec :: "Account \<Rightarrow> ParaWallet option \<Rightarrow> (string \<times> ChainNamespace) option" where
  "deriveWallet_spec acc wq =
     firstMatch [externalEvm_spec acc, externalSolana_spec acc, embedded_spec acc wq]"

text \<open>The address and the namespace that a recomputation resolves.\<close>

definition essence :: "Locals \<Rightarrow> (string \<times> ChainNamespace) option" where
  "essence L = (if truthyString (address L) then Some (addressOf L, namespace L) else None)"

definition addressAndNamespace :: "WalletState \<Rightarrow> string list \<times> ChainNamespace list" where
  "addressAndNamespace w = (accounts w, map snd (chains w))"

section \<open>Invariants of a mounted bridge\<close>

text \<open>
  The states a mounted bridge passes through: the mount, then renders and calls of
  \<^verbatim>\<open>setChain\<close>, \<^verbatim>\<open>disconnect\<close>, \<^verbatim>\<open>on\<close> and \<^verbatim>\<open>removeListener\<close>, with whatever the
  hooks return at that time.
\<close>

inductive reachable :: "Bridge \<Rightarrow> bool" where
  reach_mount: "reachable (fst (mount h st))"
| reach_render: "reachable s \<Longrightarrow> reachable (fst (render h s))"
| reach_setChain: "reachable s \<Longrightarrow> reachable (fst (setChain h a s))"
| reach_disconnect: "reachable s \<Longrightarrow> reachable (fst (disconnect h s))"
| reach_on: "reachable s \<Longrightarrow> reachable (on n l s)"
| reach_removeListener: "reachable s \<Longrightarrow> reachable (removeListener n l s)"

text \<open>The provider object in the ref was allocated below the next free address, and
  the effect has seen the chain id that React remembers as its dependency.\<close>

definition allocated :: "Bridge \<Rightarrow> bool" where
  "allocated s \<longleftrightarrow> (case stableProviderRef s of None \<Rightarrow> True | Some p \<Rightarrow> object_id p < nextObject s)"

definition effectSynced :: "Bridge \<Rightarrow> bool" where
  "effectSynced s \<longleftrightarrow> (case effectDeps s of None \<Rightarrow> True | Some d \<Rightarrow> prevChainIdRef s = d)"

text \<open>The last render has been committed: its effect has run.\<close>

definition committed :: "Bridge \<Rightarrow> bool" where
  "committed s \<longleftrightarrow> effectDeps s = Some (selectedChainId s) \<and> prevChainIdRef s = selectedChainId s"

section \<open>Example inputs\<close>

definition exampleConfig :: RuntimeConfig where
  "exampleConfig =
     \<lparr>VITE_ORDERLY_MAINNET_CHAINS = Some ''1,8453'',
      VITE_ORDERLY_TESTNET_CHAINS = Some ''421614'',
      VITE_DEFAULT_CHAIN = Some ''1''\<rparr>"

definition evmWalletOf :: "string \<Rightarrow> ParaWallet" where
  "evmWalletOf a = \<lparr>w_chainType = Some EVM, w_type = None, w_address = Some a\<rparr>"

definition embeddedAccount :: "string \<Rightarrow> Account" where
  "embeddedAccount a =
     \<lparr>isConnected = True, isLoading = False, external = None,
      embedded = Some \<lparr>e_isConnected = Some True, e_isGuestMode = Some False,
                       e_wallets = Some [evmWalletOf a], e_address = None\<rparr>\<rparr>"

definition externalEvmAccount :: "string \<Rightarrow> number \<Rightarrow> ParaEmbedded option \<Rightarrow> Account" where
  "externalEvmAccount a c e =
     \<lparr>isConnected = True, isLoading = False,
      external = Some \<lparr>ext_evm = Some \<lparr>evm_address = Some a, evm_connector = None,
                                       evm_chainId = Some c\<rparr>,
                       ext_solana = None\<rparr>,
      embedded = e\<rparr>"

definition hooksWith :: "Account \<Rightarrow> Hooks" where
  "hooksWith acc =
     \<lparr>networkId = mainnet, runtimeConfig = exampleConfig, account = acc,
      walletQuery_data = None, paraClient = Some (ParaClient (Some None))\<rparr>"

definition emptyStorage :: Storage where
  "emptyStorage = \<lparr>items = Map.empty, getItem_throws = False, setItem_throws = False\<rparr>"

definition fullStorage :: Storage where
  "fullStorage = \<lparr>items = Map.empty, getItem_throws = False, setItem_throws = True\<rparr>"

definition aliceAddress :: string where
  "aliceAddress = ''0xA11CE''"

definition bobAddress :: string where
  "bobAddress = ''0xB0B''"

definition aliceHooks :: Hooks where
  "aliceHooks = hooksWith (embeddedAccount aliceAddress)"

definition bobHooks :: Hooks where
  "bobHooks = hooksWith (embeddedAccount bobAddress)"

definition externalOnlyHooks :: Hooks where
  "externalOnlyHooks = hooksWith (externalEvmAccount aliceAddress (Num 56) None)"

definition externalAndEmbeddedHooks :: Hooks where
  "externalAndEmbeddedHooks =
     hooksWith (externalEvmAccount aliceAddress (Num 56)
       (Some \<lparr>e_isConnected = Some True, e_isGuestMode = Some False,
              e_wallets = Some [evmWalletOf bobAddress], e_address = Some bobAddress\<rparr>))"

definition trailingCommaHooks :: Hooks where
  "trailingCommaHooks =
     (hooksWith (embeddedAccount aliceAddress))
       \<lparr>runtimeConfig := exampleConfig\<lparr>VITE_ORDERLY_MAINNET_CHAINS := Some ''1,8453,''\<rparr>\<rparr>"

definition unparsableStorage :: Storage where
  "unparsableStorage =
     \<lparr>items = [''para_selected_chain_mainnet'' \<mapsto> ''abc''],
      getItem_throws = False, setItem_throws = False\<rparr>"

definition exampleSdk :: "string \<Rightarrow> Sdk" where
  "exampleSdk raw =
     \<lparr>signMessage = (\<lambda>sg m. Inr raw),
      signTypedData = (\<lambda>sg m. Inr raw),
      sendTransaction = (\<lambda>sg m. Inr (JString ''0xhash'')),
      send = (\<lambda>prov m ps. Inr (JArray (JString m # ps)))\<rparr>"

definition mountedAlice :: Bridge where
  "mountedAlice = fst (mount aliceHooks emptyStorage)"

text \<open>Alice's first recomputation, a disconnect, and the recomputation after it.\<close>

definition aliceFirst :: "Bridge \<times> WalletState option" where
  "aliceFirst = walletState aliceHooks (initialBridge aliceHooks emptyStorage)"

definition aliceDisconnected :: Bridge where
  "aliceDisconnected = fst (disconnect aliceHooks (fst aliceFirst))"

definition aliceSecond :: "Bridge \<times> WalletState option" where
  "aliceSecond = walletState aliceHooks aliceDisconnected"

text \<open>Bob signs in without a disconnect of the bridge in between.\<close>

definition bobAfterAlice :: "Bridge \<times> WalletState option" where
  "bobAfterAlice = walletState bobHooks (fst aliceFirst)"

definition externalOnly :: "Bridge \<times> WalletState option" where
  "externalOnly = walletState externalOnlyHooks (initialBridge externalOnlyHooks emptyStorage)"

definition externalAndEmbedded :: "Bridge \<times> WalletState option" where
  "externalAndEmbedded =
     walletState externalAndEmbeddedHooks (initialBridge externalAndEmbeddedHooks emptyStorage)"

definition chainIdRequest :: Request where
  "chainIdRequest = \<lparr>req_method = ''eth_chainId'', req_params = None\<rparr>"

definition accountsRequest :: Request where
  "accountsRequest = \<lparr>req_method = ''eth_accounts'', req_params = None\<rparr>"

definition blockNumberRequest :: Request where
  "blockNumberRequest = \<lparr>req_method = ''eth_blockNumber'', req_params = None\<rparr>"

definition signRequest :: Request where
  "signRequest =
     \<lparr>req_method = ''personal_sign'',
      req_params = Some [JString ''0x68656c6c6f'', JString aliceAddress]\<rparr>"

definition typedRequest :: Request where
  "typedRequest =
     \<lparr>req_method = ''eth_signTypedData_v4'', req_params = Some [JString aliceAddress, JObject 0]\<rparr>"

text \<open>The provider object of Alice's first recomputation, and the one allocated after
  the disconnect.\<close>

definition aliceProvider :: EIP1193Provider where
  "aliceProvider = \<lparr>object_id = 0, closure_address = aliceAddress\<rparr>"

definition reconnectedProvider :: EIP1193Provider where
  "reconnectedProvider = \<lparr>object_id = 1, closure_address = aliceAddress\<rparr>"

text \<open>Alice selects chain 8453 and the wallet state is recomputed.\<close>

definition aliceSwitched :: "Bridge \<times> WalletState option" where
  "aliceSwitched =
     walletState aliceHooks (fst (setChain aliceHooks (NumberId (Num 8453)) (fst aliceFirst)))"

text \<open>A listener registers; chain 8453 is selected and then chain 1 again, both before
  the next render.\<close>

definition switchedAway :: "Bridge \<times> (error + bool)" where
  "switchedAway = setChain aliceHooks (NumberId (Num 8453)) (on ''chainChanged'' 3 mountedAlice)"

definition switchedBack :: "Bridge \<times> (error + bool)" where
  "switchedBack = setChain aliceHooks (NumberId (Num 1)) (fst switchedAway)"

text \<open>Two listeners register, then chain 8453 is selected.\<close>

definition listening :: Bridge where
  "listening =
     fst (setChain aliceHooks (StringId ''0x2105'')
            (on ''chainChanged'' 7 (on ''chainChanged'' 3 mountedAlice)))"

definition noLogoutHooks :: Hooks where
  "noLogoutHooks = aliceHooks\<lparr>paraClient := Some (ParaClient None)\<rparr>"

definition failingLogoutHooks :: Hooks where
  "failingLogoutHooks =
     aliceHooks\<lparr>paraClient := Some (ParaClient (Some (Some (Upstream ''logout''))))\<rparr>"

definition signedOutHooks :: Hooks where
  "signedOutHooks =
     hooksWith \<lparr>isConnected = False, isLoading = False, external = None, embedded = None\<rparr>"

text \<open>The state before the first render of the examples: nothing stored, chain 1
  selected; and the snapshot of an embedded wallet on a chain.\<close>

definition start :: Bridge where
  "start =
     \<lparr>connecting = False, settingChain = False, selectedChainId = Num 1,
      eventListenersRef = Map.empty, prevChainIdRef = Num 1,
      providerStateRef = None, stableProviderRef = None,
      effectDeps = None, localStorage = emptyStorage, nextObject = 0, trace = []\<rparr>"

definition snapshotAt :: "number \<Rightarrow> string \<Rightarrow> ProviderState" where
  "snapshotAt c url =
     \<lparr>chainId = c, rpcUrl = url,
      signer = Some \<lparr>signer_client = ParaClient (Some None),
                     signer_provider = \<lparr>rpc_url = url, rpc_network = c\<rparr>\<rparr>,
      ethersProvider = \<lparr>rpc_url = url, rpc_network = c\<rparr>\<rparr>"

definition embeddedWallet :: "string \<Rightarrow> number \<Rightarrow> EIP1193Provider \<Rightarrow> WalletState" where
  "embeddedWallet a c p =
     \<lparr>label = ''Para Embedded'', icon = [], provider = p, accounts = [a],
      chains = [(NumericChain c, evm)]\<rparr>"

text \<open>The state that Alice's first recomputation leaves.\<close>

definition firstState :: Bridge where
  "firstState =
     start\<lparr>providerStateRef := Some (snapshotAt (Num 1) ''https://ethereum-rpc.publicnode.com''),
           stableProviderRef := Some aliceProvider, nextObject := 1\<rparr>"

section \<open>Properties\<close>

lemma natToString_digit:
  "n < R \<Longrightarrow> natToString R n = [''0123456789abcdefghijklmnopqrstuvwxyz'' ! n]"
  by (subst natToString.simps) simp

lemma natToString_more:
  "\<not> n < R \<Longrightarrow> 2 \<le> R \<Longrightarrow>
   natToString R n = natToString R (n div R) @ [''0123456789abcdefghijklmnopqrstuvwxyz'' ! (n mod R)]"
  by (subst natToString.simps) simp

lemmas js_defs =
  parseInt_def isWhiteSpace_def radixDigit_def digitValue_def digitsValue_def
  toString_def natToString_digit natToString_more trim_def split_def
  sliceLast2_def sliceButLast2_def padStart2_def includes_arr_def truthyNumber_def
  truthyString_def orElse_def strictNotEqual_def

subsection \<open>Wallet derivation\<close>

lemma truthy_nonEmpty: "truthyString a \<longleftrightarrow> nonEmpty a \<noteq> None"
  by (simp add: truthyString_def nonEmpty_def split: option.splits)

lemma nonEmpty_Some: "nonEmpty a = Some v \<longleftrightarrow> a = Some v \<and> v \<noteq> []"
  by (auto simp: nonEmpty_def split: option.splits)

lemma essence_initial: "essence initialLocals = None"
  by (simp add: essence_def initialLocals_def truthyString_def)

lemma approach1_essence:
  "essence (approach1 e sel initialLocals) = walletsLookup_spec e"
  by (auto simp: approach1_def walletsLookup_spec_def essence_def initialLocals_def addressOf_def
      truthyString_def nonEmpty_def split: option.splits)

lemma approach2_essence:
  "essence (approach2 wq sel L) = (case essence L of Some r \<Rightarrow> Some r | None \<Rightarrow> walletQuery_spec wq)"
  by (auto simp: approach2_def walletQuery_spec_def essence_def addressOf_def
      truthyString_def nonEmpty_def split: option.splits)

lemma approach3_essence:
  "essence (approach3 e sel L) = (case essence L of Some r \<Rightarrow> Some r | None \<Rightarrow> directAddress_spec e)"
  by (auto simp: approach3_def directAddress_spec_def essence_def addressOf_def
      truthyString_def nonEmpty_def split: option.splits)

lemma firstMatch_Cons:
  "firstMatch (x # xs) = (case x of None \<Rightarrow> firstMatch xs | Some v \<Rightarrow> Some v)"
  by (cases x) simp_all

lemma embedded_essence:
  "essence (approach3 e sel (approach2 wq sel (approach1 e sel initialLocals)))
     = firstMatch [walletsLookup_spec e, walletQuery_spec wq, directAddress_spec e]"
  by (simp add: approach3_essence approach2_essence approach1_essence firstMatch_Cons
      split: option.splits)

lemma resolveWallet_essence:
  "(case resolveWallet acc wq sel of None \<Rightarrow> None | Some L \<Rightarrow> essence L) = deriveWallet_spec acc wq"
proof (cases "truthyString (hasEvm acc)")
  case True
  then obtain a where a: "hasEvm acc = Some a" "a \<noteq> []"
    by (auto simp: truthyString_def split: option.splits)
  then obtain e where e: "evmAccount acc = Some e" "evm_address e = Some a"
    by (auto simp: hasEvm_def split: option.splits)
  show ?thesis
    using True a e
    by (simp add: resolveWallet_def deriveWallet_spec_def externalEvm_spec_def nonEmpty_def
        essence_def initialLocals_def addressOf_def Let_def)
next
  case noEvm: False
  then have evm0: "externalEvm_spec acc = None"
    by (simp add: externalEvm_spec_def truthy_nonEmpty)
  show ?thesis
  proof (cases "hasSolana acc")
    case (Some pk)
    obtain c cs where pk: "pk = PublicKey c cs" by (cases pk)
    show ?thesis
      using noEvm evm0 Some pk
      by (simp add: resolveWallet_def deriveWallet_spec_def externalSolana_spec_def
          essence_def initialLocals_def addressOf_def truthyString_def Let_def)
  next
    case noSol: None
    then have sol0: "externalSolana_spec acc = None"
      by (simp add: externalSolana_spec_def)
    show ?thesis
    proof (cases "hasEmbedded acc")
      case True
      then obtain e where e: "embedded acc = Some e"
        by (auto simp: hasEmbedded_def split: option.splits)
      have "resolveWallet acc wq sel =
              (let L = approach3 e sel (approach2 wq sel (approach1 e sel initialLocals))
               in if truthyString (address L) then Some L else None)"
        using noEvm noSol True e by (simp add: resolveWallet_def)
      then have "(case resolveWallet acc wq sel of None \<Rightarrow> None | Some L \<Rightarrow> essence L)
              = essence (approach3 e sel (approach2 wq sel (approach1 e sel initialLocals)))"
        by (simp add: Let_def essence_def)
      then show ?thesis
        using evm0 sol0 True e
        by (simp add: embedded_essence deriveWallet_spec_def embedded_spec_def firstMatch_Cons
            split: option.splits)
    next
      case False
      then have "embedded_spec acc wq = None"
        by (simp add: embedded_spec_def split: option.splits)
      then show ?thesis
        using noEvm noSol False evm0 sol0
        by (simp add: resolveWallet_def deriveWallet_spec_def initialLocals_def truthyString_def Let_def)
    qed
  qed
qed

subsection \<open>setChain\<close>

lemma setChain_result:
  "setChain h options s =
     (if includes_arr (availableChainIds h) (requestedChainId options)
      then ((setAndPersistChainId h (requestedChainId options) s)\<lparr>settingChain := False\<rparr>, Inr True)
      else (s\<lparr>settingChain := False\<rparr>,
            Inl (ChainNotAvailable (requestedChainId options) (networkId h) (availableChainIds h))))"
  by (simp add: setChain_def setAndPersistChainId_def setItem_def Let_def)

lemma setAndPersistChainId_selected:
  "selectedChainId (setAndPersistChainId h c s) = c"
  by (simp add: setAndPersistChainId_def setItem_def Let_def)

lemma setAndPersistChainId_storage:
  "localStorage (setAndPersistChainId h c s) =
     (if setItem_throws (localStorage s) then localStorage s
      else (localStorage s)\<lparr>items := (items (localStorage s))(storageKey h \<mapsto> toString c 10)\<rparr>)"
  by (simp add: setAndPersistChainId_def setItem_def Let_def)

text \<open>
  Claim C1, as amended.  \<^verbatim>\<open>setChain\<close> takes a hex string or a number and works on the
  number.  When the number is not among the available chain ids of the network it throws
  and leaves the selected chain id and the storage as they were.  When it is, it returns
  success and the selected chain id is the number; the number is written to the storage
  under the key of the network when the storage accepts the write, and a write that
  throws is ignored, leaving the storage as it was.
\<close>

theorem setChain_validates_updates_persists:
  assumes "setChain h options s = (s', r)"
  shows "(\<not> includes_arr (availableChainIds h) (requestedChainId options) \<longrightarrow>
            r = Inl (ChainNotAvailable (requestedChainId options) (networkId h) (availableChainIds h))
            \<and> s' = s\<lparr>settingChain := False\<rparr>)
       \<and> (includes_arr (availableChainIds h) (requestedChainId options) \<longrightarrow>
            r = Inr True
            \<and> selectedChainId s' = requestedChainId options
            \<and> (if setItem_throws (localStorage s) then localStorage s' = localStorage s
                else items (localStorage s') (storageKey h)
                       = Some (toString (requestedChainId options) 10)))"
proof (cases "includes_arr (availableChainIds h) (requestedChainId options)")
  case True
  with assms have s': "s' = (setAndPersistChainId h (requestedChainId options) s)\<lparr>settingChain := False\<rparr>"
    and r: "r = Inr True"
    by (simp_all add: setChain_result)
  show ?thesis
    using True r by (simp add: s' setAndPersistChainId_selected setAndPersistChainId_storage)
next
  case False
  with assms show ?thesis by (simp add: setChain_result)
qed

subsection \<open>getInitialChainId\<close>

text \<open>What \<^verbatim>\<open>getInitialChainId\<close> does away from the unparsable entry: a stored value that
  parses to an available chain is restored; a read error, an absent or empty value and a
  value that is not available give the default.\<close>

lemma getInitialChainId_restores:
  "getItem st (storageKey h) = Inr (Some stored) \<Longrightarrow> stored \<noteq> [] \<Longrightarrow>
   includes_arr (availableChainIds h) (parseInt stored 10) \<Longrightarrow>
   getInitialChainId h st = parseInt stored 10"
  by (simp add: getInitialChainId_def)

lemma getInitialChainId_defaults:
  "getItem st (storageKey h) = Inl err \<Longrightarrow> getInitialChainId h st = defaultChainId h"
  "getItem st (storageKey h) = Inr None \<Longrightarrow> getInitialChainId h st = defaultChainId h"
  "getItem st (storageKey h) = Inr (Some stored) \<Longrightarrow>
   \<not> includes_arr (availableChainIds h) (parseInt stored 10) \<Longrightarrow>
   getInitialChainId h st = defaultChainId h"
  by (simp_all add: getInitialChainId_def)

lemma getInitialChainId_parse_failure:
  "NaN \<notin> set (availableChainIds h) \<Longrightarrow> getItem st (storageKey h) = Inr (Some stored) \<Longrightarrow>
   parseInt stored 10 = NaN \<Longrightarrow> getInitialChainId h st = defaultChainId h"
  by (simp add: getInitialChainId_def includes_arr_def)

subsection \<open>walletState\<close>

lemma walletState_unresolved:
  "resolveWallet (account h) (walletQuery_data h) (selectedChainId s) = None \<Longrightarrow>
   walletState h s = (s, None)"
  by (simp add: walletState_def)

lemma walletState_resolved:
  assumes "resolveWallet (account h) (walletQuery_data h) (selectedChainId s) = Some L"
  shows "walletState h s =
    (case stableProviderRef s of
       None \<Rightarrow>
         (s\<lparr>providerStateRef := Some (snapshotOf h L),
            stableProviderRef := Some \<lparr>object_id = nextObject s, closure_address = addressOf L\<rparr>,
            nextObject := Suc (nextObject s)\<rparr>,
          Some \<lparr>label = walletName L, icon = [],
                provider = \<lparr>object_id = nextObject s, closure_address = addressOf L\<rparr>,
                accounts = [addressOf L], chains = [(chainRef L, namespace L)]\<rparr>)
     | Some p \<Rightarrow>
         (s\<lparr>providerStateRef := Some (snapshotOf h L)\<rparr>,
          Some \<lparr>label = walletName L, icon = [], provider = p,
                accounts = [addressOf L], chains = [(chainRef L, namespace L)]\<rparr>))"
  using assms by (simp add: walletState_def Let_def split: option.splits)

lemma walletState_Some_iff:
  "snd (walletState h s) \<noteq> None \<longleftrightarrow>
   resolveWallet (account h) (walletQuery_data h) (selectedChainId s) \<noteq> None"
  by (auto simp: walletState_def Let_def split: option.splits)

lemma walletState_keeps:
  "selectedChainId (fst (walletState h s)) = selectedChainId s"
  "prevChainIdRef (fst (walletState h s)) = prevChainIdRef s"
  "effectDeps (fst (walletState h s)) = effectDeps s"
  "eventListenersRef (fst (walletState h s)) = eventListenersRef s"
  "trace (fst (walletState h s)) = trace s"
  "localStorage (fst (walletState h s)) = localStorage s"
  by (simp_all add: walletState_def Let_def split: option.splits)

lemma walletState_allocated: "allocated s \<Longrightarrow> allocated (fst (walletState h s))"
  by (auto simp: walletState_def allocated_def Let_def split: option.splits)

lemma resolved_chain:
  assumes "resolveWallet acc wq sel = Some L" "\<not> truthyString (hasEvm acc)" "hasSolana acc = None"
  shows "chainRef L = NumericChain sel"
proof -
  from assms have emb: "hasEmbedded acc"
    by (auto simp: resolveWallet_def Let_def initialLocals_def truthyString_def split: if_splits)
  then obtain e where e: "embedded acc = Some e"
    by (auto simp: hasEmbedded_def split: option.splits)
  define M where "M = approach3 e sel (approach2 wq sel (approach1 e sel initialLocals))"
  from assms emb e have L: "L = M" and t: "truthyString (address M)"
    by (auto simp: resolveWallet_def Let_def M_def split: if_splits)
  have "truthyString (address M) \<longrightarrow> chainRef M = NumericChain sel"
    unfolding M_def
    by (auto simp: approach1_def approach2_def approach3_def initialLocals_def truthyString_def
        split: option.splits)
  with t L show ?thesis by simp
qed

subsection \<open>request\<close>

lemma request_uninitialized:
  "providerStateRef s = None \<Longrightarrow> request sdk p s rq = Inl ProviderStateNotInitialized"
  by (simp add: request_def)

lemma request_no_signer:
  "providerStateRef s = Some st \<Longrightarrow> signer st = None \<Longrightarrow>
   request sdk p s rq = Inl SignerNotAvailable"
  by (simp add: request_def)

lemma request_chainId:
  "providerStateRef s = Some st \<Longrightarrow> signer st = Some sg \<Longrightarrow> req_method rq = ''eth_chainId'' \<Longrightarrow>
   request sdk p s rq = Inr (JString (''0x'' @ toString (chainId st) 16))"
  by (simp add: request_def)

lemma request_accounts:
  "providerStateRef s = Some st \<Longrightarrow> signer st = Some sg \<Longrightarrow>
   req_method rq = ''eth_accounts'' \<or> req_method rq = ''eth_requestAccounts'' \<Longrightarrow>
   request sdk p s rq = Inr (JArray [JString (closure_address p)])"
  by (auto simp: request_def)

text \<open>
  Claim C3, as amended.  For two consecutive recomputations of the wallet state within
  one mount that both resolve a wallet, with no \<^verbatim>\<open>disconnect\<close> between them (the
  provider ref is still the one the first left), the provider object returned is the
  same object; the snapshot is replaced as a whole, so that nothing of the earlier
  snapshot is left in it; \<^verbatim>\<open>eth_chainId\<close> on the handle then returns the chain id of
  the snapshot as \<^verbatim>\<open>0x\<close> hex when the snapshot has a signer, and that chain id is the
  latest selected chain id when the wallet is resolved from the embedded account.
\<close>

theorem stable_handle_until_disconnect:
  assumes "walletState h1 s = (s1, Some w1)"
    and "stableProviderRef s1' = stableProviderRef s1"
    and "walletState h2 s1' = (s2, Some w2)"
  shows "provider w2 = provider w1
     \<and> stableProviderRef s2 = Some (provider w1)
     \<and> (\<forall>old. providerStateRef (fst (walletState h2 (s1'\<lparr>providerStateRef := old\<rparr>)))
                = providerStateRef s2)
     \<and> (\<exists>st. providerStateRef s2 = Some st
            \<and> (signer st \<noteq> None \<longrightarrow>
                 request sdk (provider w2) s2 \<lparr>req_method = ''eth_chainId'', req_params = ps\<rparr>
                   = Inr (JString (''0x'' @ toString (chainId st) 16)))
            \<and> (\<not> truthyString (hasEvm (account h2)) \<and> hasSolana (account h2) = None \<longrightarrow>
                 chainId st = selectedChainId s1'))"
proof -
  from assms(1) obtain L1 where
    L1: "resolveWallet (account h1) (walletQuery_data h1) (selectedChainId s) = Some L1"
    by (cases "resolveWallet (account h1) (walletQuery_data h1) (selectedChainId s)")
       (auto simp: walletState_unresolved)
  from assms(1) have ref1: "stableProviderRef s1 = Some (provider w1)"
    by (auto simp: walletState_resolved [OF L1] split: option.splits)
  from assms(3) obtain L2 where
    L2: "resolveWallet (account h2) (walletQuery_data h2) (selectedChainId s1') = Some L2"
    by (cases "resolveWallet (account h2) (walletQuery_data h2) (selectedChainId s1')")
       (auto simp: walletState_unresolved)
  from assms(2) ref1 have ref1': "stableProviderRef s1' = Some (provider w1)" by simp
  from assms(3) ref1' have w2: "provider w2 = provider w1"
    and s2: "s2 = s1'\<lparr>providerStateRef := Some (snapshotOf h2 L2)\<rparr>"
    by (auto simp: walletState_resolved [OF L2])
  have snap: "providerStateRef s2 = Some (snapshotOf h2 L2)" by (simp add: s2)
  have whole: "providerStateRef (fst (walletState h2 (s1'\<lparr>providerStateRef := old\<rparr>)))
                = providerStateRef s2" for old
  proof -
    have "resolveWallet (account h2) (walletQuery_data h2)
            (selectedChainId (s1'\<lparr>providerStateRef := old\<rparr>)) = Some L2"
      using L2 by simp
    from walletState_resolved [OF this] ref1' snap show ?thesis by simp
  qed
  have chain: "request sdk (provider w2) s2 \<lparr>req_method = ''eth_chainId'', req_params = ps\<rparr>
                 = Inr (JString (''0x'' @ toString (chainId (snapshotOf h2 L2)) 16))"
    if "signer (snapshotOf h2 L2) \<noteq> None"
    using that snap by (auto simp: request_def)
  have sel: "chainId (snapshotOf h2 L2) = selectedChainId s1'"
    if "\<not> truthyString (hasEvm (account h2))" "hasSolana (account h2) = None"
    using resolved_chain [OF L2 that] by (simp add: snapshotOf_def Let_def)
  from w2 s2 ref1' whole snap chain sel show ?thesis by auto
qed

text \<open>
  Claim C5, as amended.  With a snapshot that has no signer, \<^verbatim>\<open>request\<close> fails with
  the signer error for every method, the read-only and the forwarded ones included.
  With a signer, \<^verbatim>\<open>eth_chainId\<close> returns the chain id of the snapshot as \<^verbatim>\<open>0x\<close> hex,
  \<^verbatim>\<open>eth_accounts\<close> and \<^verbatim>\<open>eth_requestAccounts\<close> return an array of one address, and
  a method outside the dispatch table is forwarded with its name and parameters to the
  RPC client of the snapshot.
\<close>

theorem signer_guard_covers_every_method:
  assumes "providerStateRef s = Some st"
  shows "(signer st = None \<longrightarrow> request sdk p s rq = Inl SignerNotAvailable)
     \<and> (signer st \<noteq> None \<longrightarrow>
          (req_method rq = ''eth_chainId'' \<longrightarrow>
             request sdk p s rq = Inr (JString (''0x'' @ toString (chainId st) 16)))
        \<and> (req_method rq = ''eth_accounts'' \<or> req_method rq = ''eth_requestAccounts'' \<longrightarrow>
             (\<exists>a. request sdk p s rq = Inr (JArray [JString a])))
        \<and> (req_method rq \<notin> {''personal_sign'', ''eth_sign'', ''eth_signTypedData'',
                           ''eth_signTypedData_v4'', ''eth_sendTransaction'', ''eth_accounts'',
                           ''eth_requestAccounts'', ''eth_chainId''} \<longrightarrow>
             request sdk p s rq = send sdk (ethersProvider st) (req_method rq) (paramsOf rq)))"
  using assms by (auto simp: request_def)

subsection \<open>Signatures\<close>

lemma sliceLast2_append2: "sliceLast2 (body @ [a, b]) = [a, b]"
  by (simp add: sliceLast2_def)

lemma sliceButLast2_append2: "sliceButLast2 (body @ [a, b]) = body"
  by (simp add: sliceButLast2_def)

lemma normalizeV_00: "normalizeV (body @ ''00'') = body @ ''1b''"
  by (simp add: normalizeV_def sliceLast2_append2 sliceButLast2_append2 js_defs)

lemma normalizeV_01: "normalizeV (body @ ''01'') = body @ ''1c''"
  by (simp add: normalizeV_def sliceLast2_append2 sliceButLast2_append2 js_defs)

lemma normalizeV_high:
  "parseInt (sliceLast2 raw) 16 = Num v \<Longrightarrow> 27 \<le> v \<Longrightarrow> normalizeV raw = raw"
  by (simp add: normalizeV_def)

lemma request_signed:
  assumes "providerStateRef s = Some st" and "signer st = Some sg"
    and "(req_method rq \<in> {''personal_sign'', ''eth_sign''} \<and> signMessage sdk sg (param0 rq) = Inr raw)
       \<or> (req_method rq \<in> {''eth_signTypedData'', ''eth_signTypedData_v4''}
            \<and> signTypedData sdk sg (param1 rq) = Inr raw)"
  shows "request sdk p s rq = Inr (JString (normalizeV raw))"
  using assms by (auto simp: request_def)

text \<open>
  Claim C4.  For \<^verbatim>\<open>personal_sign\<close>, \<^verbatim>\<open>eth_sign\<close>, \<^verbatim>\<open>eth_signTypedData\<close> and
  \<^verbatim>\<open>eth_signTypedData_v4\<close>: when the signer returns a signature that ends in the byte
  \<^verbatim>\<open>00\<close> or \<^verbatim>\<open>01\<close>, the shim returns it with that byte replaced by \<^verbatim>\<open>1b\<close> or
  \<^verbatim>\<open>1c\<close>; a signature whose last byte is 27 or more is returned as it is.
\<close>

theorem signature_recovery_byte_normalized:
  assumes "providerStateRef s = Some st" and "signer st = Some sg"
    and "(req_method rq \<in> {''personal_sign'', ''eth_sign''} \<and> signMessage sdk sg (param0 rq) = Inr raw)
       \<or> (req_method rq \<in> {''eth_signTypedData'', ''eth_signTypedData_v4''}
            \<and> signTypedData sdk sg (param1 rq) = Inr raw)"
  shows "(\<forall>body. raw = body @ ''00'' \<longrightarrow> request sdk p s rq = Inr (JString (body @ ''1b'')))
     \<and> (\<forall>body. raw = body @ ''01'' \<longrightarrow> request sdk p s rq = Inr (JString (body @ ''1c'')))
     \<and> (\<forall>v. parseInt (sliceLast2 raw) 16 = Num v \<and> 27 \<le> v \<longrightarrow>
            request sdk p s rq = Inr (JString raw))"
  using request_signed [OF assms, of p]
  by (auto simp: normalizeV_00 normalizeV_01 normalizeV_high simp del: append.simps)

subsection \<open>Invariants\<close>

lemma useEffect_synced: "effectSynced s \<Longrightarrow> effectSynced (useEffect_chainChanged s)"
  by (auto simp: effectSynced_def useEffect_chainChanged_def chainChangedEffect_def
      callListeners_def strictNotEqual_def split: option.splits)

lemma useEffect_keeps:
  "stableProviderRef (useEffect_chainChanged s) = stableProviderRef s"
  "providerStateRef (useEffect_chainChanged s) = providerStateRef s"
  "nextObject (useEffect_chainChanged s) = nextObject s"
  "selectedChainId (useEffect_chainChanged s) = selectedChainId s"
  by (simp_all add: useEffect_chainChanged_def chainChangedEffect_def callListeners_def)

lemma listener_keeps:
  "stableProviderRef (on n l s) = stableProviderRef s"
  "providerStateRef (on n l s) = providerStateRef s"
  "stableProviderRef (removeListener n l s) = stableProviderRef s"
  "providerStateRef (removeListener n l s) = providerStateRef s"
  by (simp_all add: on_def removeListener_def split: option.splits)

lemma render_inv:
  assumes "allocated s \<and> effectSynced s"
  shows "allocated (fst (render h s)) \<and> effectSynced (fst (render h s))"
proof -
  obtain s1 w where r: "walletState h s = (s1, w)" by (cases "walletState h s")
  with assms walletState_allocated [of s h] have a: "allocated s1" by simp
  from r walletState_keeps(2,3) [of h s]
  have "prevChainIdRef s1 = prevChainIdRef s" "effectDeps s1 = effectDeps s" by simp_all
  with assms have e: "effectSynced s1"
    by (simp add: effectSynced_def split: option.splits)
  from a have "allocated (useEffect_chainChanged s1)"
    by (simp add: allocated_def useEffect_keeps split: option.splits)
  with e r show ?thesis by (simp add: render_def useEffect_synced)
qed

lemma initial_inv: "allocated (initialBridge h st) \<and> effectSynced (initialBridge h st)"
  by (simp add: allocated_def effectSynced_def initialBridge_def)

lemma setChain_keeps:
  "providerStateRef (fst (setChain h a s)) = providerStateRef s"
  "stableProviderRef (fst (setChain h a s)) = stableProviderRef s"
  "nextObject (fst (setChain h a s)) = nextObject s"
  "prevChainIdRef (fst (setChain h a s)) = prevChainIdRef s"
  "effectDeps (fst (setChain h a s)) = effectDeps s"
  "eventListenersRef (fst (setChain h a s)) = eventListenersRef s"
  "trace (fst (setChain h a s)) = trace s"
  by (simp_all add: setChain_def setAndPersistChainId_def setItem_def Let_def)

lemma setChain_inv:
  "allocated s \<and> effectSynced s \<Longrightarrow>
   allocated (fst (setChain h a s)) \<and> effectSynced (fst (setChain h a s))"
  by (simp add: allocated_def effectSynced_def setChain_keeps split: option.splits)

lemma disconnect_inv:
  "allocated s \<and> effectSynced s \<Longrightarrow>
   allocated (fst (disconnect h s)) \<and> effectSynced (fst (disconnect h s))"
  by (auto simp: disconnect_def allocated_def effectSynced_def Let_def split: option.splits)

lemma on_inv:
  "allocated s \<and> effectSynced s \<Longrightarrow> allocated (on n l s) \<and> effectSynced (on n l s)"
  by (simp add: on_def allocated_def effectSynced_def split: option.splits)

lemma removeListener_inv:
  "allocated s \<and> effectSynced s \<Longrightarrow>
   allocated (removeListener n l s) \<and> effectSynced (removeListener n l s)"
  by (simp add: removeListener_def allocated_def effectSynced_def split: option.splits)

lemma reachable_inv: "reachable s \<Longrightarrow> allocated s \<and> effectSynced s"
proof (induction rule: reachable.induct)
  case (reach_mount h st)
  show ?case unfolding mount_def by (rule render_inv [OF initial_inv])
next
  case (reach_render s h)
  from reach_render.IH show ?case by (rule render_inv)
next
  case (reach_setChain s h a)
  from reach_setChain.IH show ?case by (rule setChain_inv)
next
  case (reach_disconnect s h)
  from reach_disconnect.IH show ?case by (rule disconnect_inv)
next
  case (reach_on s n l)
  from reach_on.IH show ?case by (rule on_inv)
next
  case (reach_removeListener s n l)
  from reach_removeListener.IH show ?case by (rule removeListener_inv)
qed

subsection \<open>The chainChanged effect\<close>

lemma useEffect_emits:
  assumes "effectDeps s = Some d" and "prevChainIdRef s = d" and "selectedChainId s \<noteq> d"
  shows "useEffect_chainChanged s =
     s\<lparr>trace := trace s @ map (\<lambda>l. ListenerCalled l (''0x'' @ toString (selectedChainId s) 16))
                            (listenersOf s ''chainChanged''),
       prevChainIdRef := selectedChainId s,
       effectDeps := Some (selectedChainId s)\<rparr>"
  using assms
  by (auto simp: useEffect_chainChanged_def chainChangedEffect_def callListeners_def
      strictNotEqual_def)

lemma render_unchanged_silent:
  assumes "effectDeps s = Some (selectedChainId s)"
  shows "trace (fst (render h s)) = trace s"
proof -
  obtain s1 w where r: "walletState h s = (s1, w)" by (cases "walletState h s")
  from r walletState_keeps [of h s] assms
  have "effectDeps s1 = Some (selectedChainId s1)" "trace s1 = trace s" by simp_all
  with r show ?thesis by (simp add: render_def useEffect_chainChanged_def)
qed

text \<open>
  Claim C6, as amended.  In a state of a mounted bridge whose selected chain id is not
  the one of the last committed render, the commit of the next render calls every
  listener registered for \<^verbatim>\<open>chainChanged\<close>, once each and in the order of registration,
  with \<^verbatim>\<open>0x\<close> followed by the new chain id in base 16, and nothing else is called.
\<close>

theorem chainChanged_emitted_on_change:
  assumes "reachable s" and "effectDeps s = Some d" and "selectedChainId s \<noteq> d"
  shows "trace (fst (render h s)) =
           trace s @ map (\<lambda>l. ListenerCalled l (''0x'' @ toString (selectedChainId s) 16))
                       (listenersOf s ''chainChanged'')
       \<and> committed (fst (render h s))"
proof -
  from reachable_inv [OF assms(1)] assms(2) have prev: "prevChainIdRef s = d"
    by (simp add: effectSynced_def)
  obtain s1 w where r: "walletState h s = (s1, w)" by (cases "walletState h s")
  from r walletState_keeps [of h s]
  have keep: "selectedChainId s1 = selectedChainId s" "prevChainIdRef s1 = prevChainIdRef s"
    "effectDeps s1 = effectDeps s" "eventListenersRef s1 = eventListenersRef s"
    "trace s1 = trace s"
    by simp_all
  have ls: "listenersOf s1 ''chainChanged'' = listenersOf s ''chainChanged''"
    by (simp add: listenersOf_def keep)
  have "effectDeps s1 = Some d" "prevChainIdRef s1 = d" "selectedChainId s1 \<noteq> d"
    using keep assms prev by simp_all
  from useEffect_emits [OF this] r keep ls show ?thesis
    by (simp add: render_def committed_def)
qed

subsection \<open>disconnect\<close>

lemma disconnect_cases:
  "disconnect h s =
     (case logoutOf h of
        None \<Rightarrow> (s\<lparr>stableProviderRef := None, providerStateRef := None\<rparr>, Inr [])
      | Some None \<Rightarrow>
          (s\<lparr>trace := trace s @ [LogoutCalled], stableProviderRef := None,
             providerStateRef := None\<rparr>, Inr [])
      | Some (Some err) \<Rightarrow> (s\<lparr>trace := trace s @ [LogoutCalled]\<rparr>, Inl err))"
  by (simp add: disconnect_def Let_def split: option.splits)

lemma fresh_after_clear:
  assumes "stableProviderRef s' = None" and "walletState h2 s' = (s2, Some w2)"
  shows "provider w2 = \<lparr>object_id = nextObject s', closure_address = hd (accounts w2)\<rparr>
       \<and> stableProviderRef s2 = Some (provider w2)"
proof -
  from assms(2) obtain L where
    L: "resolveWallet (account h2) (walletQuery_data h2) (selectedChainId s') = Some L"
    by (cases "resolveWallet (account h2) (walletQuery_data h2) (selectedChainId s')")
       (auto simp: walletState_unresolved)
  from assms walletState_resolved [OF L] show ?thesis by auto
qed

text \<open>
  Claim C8.  \<^verbatim>\<open>disconnect\<close> calls \<^verbatim>\<open>logout\<close> exactly when the client has one.  When
  \<^verbatim>\<open>logout\<close> is absent or resolves, \<^verbatim>\<open>disconnect\<close> returns the empty list with both
  refs cleared, and the next recomputation that resolves a wallet allocates a new
  provider object, different from the one held before.  A rejected \<^verbatim>\<open>logout\<close> is
  passed on to the caller, and the refs are as they were.
\<close>

theorem disconnect_logs_out_then_discards:
  assumes "allocated s" and "disconnect h s = (s', r)"
  shows "(logoutOf h = None \<longrightarrow> trace s' = trace s)
     \<and> (logoutOf h \<noteq> None \<longrightarrow> trace s' = trace s @ [LogoutCalled])
     \<and> (\<forall>err. logoutOf h = Some (Some err) \<longrightarrow>
           r = Inl err \<and> stableProviderRef s' = stableProviderRef s
           \<and> providerStateRef s' = providerStateRef s)
     \<and> (logoutOf h = None \<or> logoutOf h = Some None \<longrightarrow>
           r = Inr [] \<and> stableProviderRef s' = None \<and> providerStateRef s' = None
           \<and> (\<forall>h2 s2 w2. walletState h2 s' = (s2, Some w2) \<longrightarrow>
                 provider w2 = \<lparr>object_id = nextObject s, closure_address = hd (accounts w2)\<rparr>
                 \<and> stableProviderRef s \<noteq> Some (provider w2)
                 \<and> stableProviderRef s2 = Some (provider w2)))"
proof -
  have fresh: "provider w2 = \<lparr>object_id = nextObject s, closure_address = hd (accounts w2)\<rparr>
                 \<and> stableProviderRef s \<noteq> Some (provider w2)
                 \<and> stableProviderRef s2 = Some (provider w2)"
    if clear: "stableProviderRef s' = None" and nxt: "nextObject s' = nextObject s"
      and w: "walletState h2 s' = (s2, Some w2)" for h2 s2 w2
  proof -
    from fresh_after_clear [OF clear w] nxt
    have p: "provider w2 = \<lparr>object_id = nextObject s, closure_address = hd (accounts w2)\<rparr>"
      and r2: "stableProviderRef s2 = Some (provider w2)" by simp_all
    from assms(1) p have "stableProviderRef s \<noteq> Some (provider w2)"
      by (auto simp: allocated_def)
    with p r2 show ?thesis by simp
  qed
  then have G: "\<forall>h2 s2 w2. walletState h2 s' = (s2, Some w2) \<longrightarrow>
                 provider w2 = \<lparr>object_id = nextObject s, closure_address = hd (accounts w2)\<rparr>
                 \<and> stableProviderRef s \<noteq> Some (provider w2)
                 \<and> stableProviderRef s2 = Some (provider w2)"
    if "stableProviderRef s' = None" "nextObject s' = nextObject s"
    using that by blast
  show ?thesis
  proof (cases "logoutOf h")
    case None
    with assms(2) have s': "s' = s\<lparr>stableProviderRef := None, providerStateRef := None\<rparr>"
      and r: "r = Inr []"
      by (simp_all add: disconnect_cases)
    from s' have c: "stableProviderRef s' = None" "providerStateRef s' = None"
      "nextObject s' = nextObject s" "trace s' = trace s" by simp_all
    note g = G [OF c(1) c(3)]
    have P1: "logoutOf h = None \<longrightarrow> trace s' = trace s" using c by simp
    have P2: "logoutOf h \<noteq> None \<longrightarrow> trace s' = trace s @ [LogoutCalled]" using None by simp
    have P3: "\<forall>err. logoutOf h = Some (Some err) \<longrightarrow>
           r = Inl err \<and> stableProviderRef s' = stableProviderRef s
           \<and> providerStateRef s' = providerStateRef s" using None by simp
    from P1 P2 P3 r c(1,2) g show ?thesis by blast
  next
    case (Some outcome)
    show ?thesis
    proof (cases outcome)
      case None
      with Some assms(2)
      have s': "s' = s\<lparr>trace := trace s @ [LogoutCalled], stableProviderRef := None,
                    providerStateRef := None\<rparr>" and r: "r = Inr []"
        by (simp_all add: disconnect_cases)
      from s' have c: "stableProviderRef s' = None" "providerStateRef s' = None"
        "nextObject s' = nextObject s" "trace s' = trace s @ [LogoutCalled]" by simp_all
      note g = G [OF c(1) c(3)]
      have P1: "logoutOf h = None \<longrightarrow> trace s' = trace s" using None Some by simp
      have P2: "logoutOf h \<noteq> None \<longrightarrow> trace s' = trace s @ [LogoutCalled]" using c by simp
      have P3: "\<forall>err. logoutOf h = Some (Some err) \<longrightarrow>
           r = Inl err \<and> stableProviderRef s' = stableProviderRef s
           \<and> providerStateRef s' = providerStateRef s" using None Some by simp
      from P1 P2 P3 r c(1,2) g show ?thesis by blast
    next
      case (Some err)
      with \<open>logoutOf h = Some outcome\<close> assms(2) show ?thesis
        by (auto simp: disconnect_cases)
    qed
  qed
qed

lemma disconnect_clears:
  "disconnect h s = (s', Inr r) \<Longrightarrow> providerStateRef s' = None \<and> stableProviderRef s' = None"
  by (auto simp: disconnect_cases split: option.splits)

text \<open>
  Claim C10.  After a \<^verbatim>\<open>disconnect\<close> that cleared the refs, \<^verbatim>\<open>request\<close> on any
  provider object obtained before rejects with \<^verbatim>\<open>Provider state not initialized\<close> for
  every method; it still does after \<^verbatim>\<open>setChain\<close>, the effect, \<^verbatim>\<open>on\<close>,
  \<^verbatim>\<open>removeListener\<close> or a recomputation that resolves no wallet, none of which
  repopulates the snapshot.
\<close>

theorem request_rejects_after_disconnect:
  assumes "disconnect h s = (s', Inr r)"
  shows "request sdk p s' rq = Inl ProviderStateNotInitialized
     \<and> request sdk p (fst (setChain h' a s')) rq = Inl ProviderStateNotInitialized
     \<and> request sdk p (useEffect_chainChanged s') rq = Inl ProviderStateNotInitialized
     \<and> request sdk p (on n l s') rq = Inl ProviderStateNotInitialized
     \<and> request sdk p (removeListener n l s') rq = Inl ProviderStateNotInitialized
     \<and> (snd (walletState h' s') = None \<longrightarrow>
          request sdk p (fst (walletState h' s')) rq = Inl ProviderStateNotInitialized)"
proof -
  from disconnect_clears [OF assms] have n: "providerStateRef s' = None" by simp
  have w: "providerStateRef (fst (walletState h' s')) = None" if "snd (walletState h' s') = None"
    using that n by (auto simp: walletState_def Let_def split: option.splits)
  have "providerStateRef (on n l s') = None" "providerStateRef (removeListener n l s') = None"
    using n by (simp_all add: on_def removeListener_def split: option.splits)
  with n w show ?thesis
    by (simp add: request_uninitialized setChain_keeps useEffect_keeps)
qed

subsection \<open>The derivation order\<close>

text \<open>
  Claim C2.  The address and namespace of the derived wallet state are those of the
  first source that matches, in the order external EVM account, external Solana account,
  embedded account (wallets array, then wallet query, then direct address); the wallet
  state is null when none resolves.  With an external EVM address the wallet state has
  that address and the EVM namespace, whatever the embedded account holds.
\<close>

theorem walletState_first_match_wins:
  "map_option addressAndNamespace (snd (walletState h s))
     = map_option (\<lambda>(a, ns). ([a], [ns])) (deriveWallet_spec (account h) (walletQuery_data h))
   \<and> (\<forall>a. hasEvm (account h) = Some a \<and> a \<noteq> [] \<longrightarrow>
        (\<exists>w. snd (walletState h s) = Some w \<and> accounts w = [a] \<and> map snd (chains w) = [evm]))"
proof -
  let ?r = "resolveWallet (account h) (walletQuery_data h) (selectedChainId s)"
  have ess: "(case ?r of None \<Rightarrow> None | Some L \<Rightarrow> essence L)
               = deriveWallet_spec (account h) (walletQuery_data h)"
    by (rule resolveWallet_essence)
  have truthy: "truthyString (address L)" if "?r = Some L" for L
    using that by (auto simp: resolveWallet_def Let_def split: if_splits)
  have first: "map_option addressAndNamespace (snd (walletState h s))
     = map_option (\<lambda>(a, ns). ([a], [ns])) (deriveWallet_spec (account h) (walletQuery_data h))"
  proof (cases ?r)
    case None
    with ess show ?thesis by (simp add: walletState_unresolved)
  next
    case (Some L)
    with ess truthy [OF Some] have "deriveWallet_spec (account h) (walletQuery_data h)
        = Some (addressOf L, namespace L)"
      by (simp add: essence_def)
    then show ?thesis
      by (simp add: walletState_resolved [OF Some] addressAndNamespace_def split: option.splits)
  qed
  have second: "\<exists>w. snd (walletState h s) = Some w \<and> accounts w = [a] \<and> map snd (chains w) = [evm]"
    if "hasEvm (account h) = Some a" "a \<noteq> []" for a
  proof -
    from that have "deriveWallet_spec (account h) (walletQuery_data h) = Some (a, evm)"
      by (simp add: deriveWallet_spec_def externalEvm_spec_def nonEmpty_def)
    with first obtain w where "snd (walletState h s) = Some w" "addressAndNamespace w = ([a], [evm])"
      by (cases "snd (walletState h s)") auto
    then show ?thesis by (auto simp: addressAndNamespace_def)
  qed
  from first second show ?thesis by blast
qed

subsection \<open>The examples, evaluated\<close>

lemmas alice_defs =
  exampleConfig_def evmWalletOf_def embeddedAccount_def hooksWith_def emptyStorage_def
  aliceAddress_def aliceHooks_def

lemmas config_defs =
  availableChainIds_def defaultChainId_def storageKey_def networkName_def getInitialChainId_def
  getItem_def setItem_def

lemmas resolve_defs =
  resolveWallet_def hasEvm_def hasSolana_def hasEmbedded_def evmAccount_def solanaAccount_def
  approach1_def approach2_def approach3_def initialLocals_def isEvmWallet_def addressOf_def
  snapshotOf_def getRpcUrl_def lookupUrl_def mainnetRpcUrls_def testnetRpcUrls_def
  makeSigner_def

lemma alice_chains:
  "availableChainIds aliceHooks = [Num 1, Num 8453]"
  "defaultChainId aliceHooks = Num 1"
  "storageKey aliceHooks = ''para_selected_chain_mainnet''"
  "networkId aliceHooks = mainnet"
  by (simp_all add: alice_defs config_defs js_defs Let_def)

lemma trailing_chains:
  "availableChainIds trailingCommaHooks = [Num 1, Num 8453, NaN]"
  "defaultChainId trailingCommaHooks = Num 1"
  by (simp_all add: trailingCommaHooks_def alice_defs config_defs js_defs Let_def)

lemma hex_eval:
  "toString (Num 1) 16 = ''1''"
  "toString (Num 56) 16 = ''38''"
  "toString (Num 8453) 16 = ''2105''"
  "toString (Num 8453) 10 = ''8453''"
  "parseInt ''0x2105'' 16 = Num 8453"
  by (simp_all add: js_defs)

lemma initial_eval:
  "initialBridge aliceHooks emptyStorage = start"
  by (simp add: initialBridge_def start_def alice_defs config_defs js_defs Let_def)

lemma initial_externalOnly:
  "initialBridge externalOnlyHooks emptyStorage = start"
  by (simp add: initialBridge_def start_def externalOnlyHooks_def externalEvmAccount_def
      alice_defs config_defs js_defs Let_def)

lemma initial_externalAndEmbedded:
  "initialBridge externalAndEmbeddedHooks emptyStorage = start"
  by (simp add: initialBridge_def start_def externalAndEmbeddedHooks_def externalEvmAccount_def
      bobAddress_def alice_defs config_defs js_defs Let_def)

lemma resolve_embedded:
  "a \<noteq> [] \<Longrightarrow>
   resolveWallet (account (hooksWith (embeddedAccount a)))
      (walletQuery_data (hooksWith (embeddedAccount a))) sel =
     Some \<lparr>address = Some a, namespace = evm, walletName = ''Para Embedded'',
           chainRef = NumericChain sel\<rparr>"
  by (simp add: resolve_defs alice_defs truthyString_def Let_def)

lemma snapshot_embedded:
  "snapshotOf (hooksWith (embeddedAccount a))
      \<lparr>address = Some a, namespace = evm, walletName = ''Para Embedded'',
       chainRef = NumericChain (Num 1)\<rparr>
     = snapshotAt (Num 1) ''https://ethereum-rpc.publicnode.com''"
  "snapshotOf (hooksWith (embeddedAccount a))
      \<lparr>address = Some a, namespace = evm, walletName = ''Para Embedded'',
       chainRef = NumericChain (Num 8453)\<rparr>
     = snapshotAt (Num 8453) ''https://mainnet.base.org''"
  by (simp_all add: resolve_defs alice_defs snapshotAt_def Let_def)

lemma walletState_embedded:
  assumes "a \<noteq> []" and "selectedChainId s = Num 1 \<or> selectedChainId s = Num 8453"
  shows "walletState (hooksWith (embeddedAccount a)) s =
    (let snap = snapshotAt (selectedChainId s)
                  (if selectedChainId s = Num 1 then ''https://ethereum-rpc.publicnode.com''
                   else ''https://mainnet.base.org'')
     in case stableProviderRef s of
          None \<Rightarrow>
            (s\<lparr>providerStateRef := Some snap,
               stableProviderRef := Some \<lparr>object_id = nextObject s, closure_address = a\<rparr>,
               nextObject := Suc (nextObject s)\<rparr>,
             Some (embeddedWallet a (selectedChainId s)
                     \<lparr>object_id = nextObject s, closure_address = a\<rparr>))
        | Some p \<Rightarrow>
            (s\<lparr>providerStateRef := Some snap\<rparr>,
             Some (embeddedWallet a (selectedChainId s) p)))"
  using assms(2) walletState_resolved [OF resolve_embedded [OF assms(1)], of s]
  by (auto simp: snapshot_embedded embeddedWallet_def addressOf_def split: option.splits)

lemma alice_first:
  "aliceFirst = (firstState, Some (embeddedWallet aliceAddress (Num 1) aliceProvider))"
  unfolding aliceFirst_def initial_eval
  unfolding aliceHooks_def
  by (subst walletState_embedded)
     (simp_all add: start_def firstState_def aliceProvider_def aliceAddress_def)

lemma bob_after_alice:
  "bobAfterAlice = (firstState, Some (embeddedWallet bobAddress (Num 1) aliceProvider))"
  unfolding bobAfterAlice_def alice_first bobHooks_def
  by (subst walletState_embedded)
     (simp_all add: start_def firstState_def aliceProvider_def bobAddress_def)

lemma firstState_fields:
  "selectedChainId firstState = Num 1"
  "stableProviderRef firstState = Some aliceProvider"
  "providerStateRef firstState = Some (snapshotAt (Num 1) ''https://ethereum-rpc.publicnode.com'')"
  "nextObject firstState = 1"
  "trace firstState = []"
  "effectDeps firstState = None"
  "prevChainIdRef firstState = Num 1"
  "eventListenersRef firstState = Map.empty"
  "localStorage firstState = emptyStorage"
  by (simp_all add: firstState_def start_def)

lemma mounted_alice: "mountedAlice = firstState\<lparr>effectDeps := Some (Num 1)\<rparr>"
proof -
  have "mount aliceHooks emptyStorage = render aliceHooks start"
    by (simp add: mount_def initial_eval)
  also have "\<dots> = (useEffect_chainChanged firstState,
                    Some (embeddedWallet aliceAddress (Num 1) aliceProvider))"
    using alice_first by (simp add: render_def aliceFirst_def initial_eval)
  also have "useEffect_chainChanged firstState = firstState\<lparr>effectDeps := Some (Num 1)\<rparr>"
    by (simp add: useEffect_chainChanged_def chainChangedEffect_def strictNotEqual_def
        firstState_fields)
  finally show ?thesis by (simp add: mountedAlice_def)
qed

lemma logout_eval: "logoutOf aliceHooks = Some None"
  by (simp add: logoutOf_def alice_defs)

lemma alice_disconnected:
  "disconnect aliceHooks firstState =
     (firstState\<lparr>trace := [LogoutCalled], stableProviderRef := None, providerStateRef := None\<rparr>,
      Inr [])"
  by (simp add: disconnect_cases logout_eval firstState_fields)

lemma alice_second:
  "aliceSecond =
     (firstState\<lparr>trace := [LogoutCalled],
                 providerStateRef := Some (snapshotAt (Num 1) ''https://ethereum-rpc.publicnode.com''),
                 stableProviderRef := Some reconnectedProvider, nextObject := 2\<rparr>,
      Some (embeddedWallet aliceAddress (Num 1) reconnectedProvider))"
  unfolding aliceSecond_def aliceDisconnected_def alice_first fst_conv alice_disconnected
  unfolding aliceHooks_def
  by (subst walletState_embedded)
     (simp_all add: firstState_def start_def reconnectedProvider_def aliceAddress_def)

lemma external_only:
  "snd externalOnly \<noteq> None"
  "providerStateRef (fst externalOnly) =
     Some \<lparr>chainId = Num 56, rpcUrl = ''https://bsc-dataseed1.binance.org'', signer = None,
           ethersProvider = \<lparr>rpc_url = ''https://bsc-dataseed1.binance.org'',
                              rpc_network = Num 56\<rparr>\<rparr>"
  unfolding externalOnly_def initial_externalOnly
  by (simp_all add: walletState_def start_def externalOnlyHooks_def externalEvmAccount_def
      resolve_defs alice_defs truthyString_def truthyNumber_def orElse_def Let_def)

lemma external_and_embedded:
  "map_option addressAndNamespace (snd externalAndEmbedded) = Some ([aliceAddress], [evm])"
  "selectedChainId (fst externalAndEmbedded) = Num 1"
  "providerStateRef (fst externalAndEmbedded) =
     Some (snapshotAt (Num 56) ''https://bsc-dataseed1.binance.org'')"
  unfolding externalAndEmbedded_def initial_externalAndEmbedded
  by (simp_all add: walletState_def start_def addressAndNamespace_def snapshotAt_def
      externalAndEmbeddedHooks_def externalEvmAccount_def bobAddress_def
      resolve_defs alice_defs truthyString_def truthyNumber_def orElse_def Let_def)

subsection \<open>The claims at the examples\<close>

lemma setChain_alice:
  "includes_arr (availableChainIds aliceHooks) (requestedChainId (StringId ''0x2105''))"
    "includes_arr (availableChainIds aliceHooks) (requestedChainId (NumberId (Num 8453)))"
    "\<not> includes_arr (availableChainIds aliceHooks) (requestedChainId (NumberId (Num 5)))"
  by (simp_all add: alice_chains includes_arr_def requestedChainId_def hex_eval)

text \<open>With chains 1 and 8453 available, \<^verbatim>\<open>setChain({chainId: '0x2105'})\<close> selects and
  stores 8453, and \<^verbatim>\<open>setChain({chainId: 5})\<close> throws and changes nothing.\<close>

theorem setChain_validates_updates_persists_witness:
  "snd (setChain aliceHooks (StringId ''0x2105'') firstState) = Inr True
   \<and> selectedChainId (fst (setChain aliceHooks (StringId ''0x2105'') firstState)) = Num 8453
   \<and> items (localStorage (fst (setChain aliceHooks (StringId ''0x2105'') firstState)))
        ''para_selected_chain_mainnet'' = Some ''8453''
   \<and> snd (setChain aliceHooks (NumberId (Num 5)) firstState)
        = Inl (ChainNotAvailable (Num 5) mainnet [Num 1, Num 8453])
   \<and> fst (setChain aliceHooks (NumberId (Num 5)) firstState) = firstState\<lparr>settingChain := False\<rparr>"
proof -
  have st: "\<not> setItem_throws (localStorage firstState)"
    by (simp add: firstState_fields emptyStorage_def)
  from setChain_validates_updates_persists
         [OF surjective_pairing, of aliceHooks "StringId ''0x2105''" firstState]
       setChain_alice(1) st
  have 1: "snd (setChain aliceHooks (StringId ''0x2105'') firstState) = Inr True
   \<and> selectedChainId (fst (setChain aliceHooks (StringId ''0x2105'') firstState)) = Num 8453
   \<and> items (localStorage (fst (setChain aliceHooks (StringId ''0x2105'') firstState)))
        ''para_selected_chain_mainnet'' = Some ''8453''"
    by (simp add: requestedChainId_def hex_eval alice_chains)
  from setChain_validates_updates_persists
         [OF surjective_pairing, of aliceHooks "NumberId (Num 5)" firstState]
       setChain_alice(3)
  have 2: "snd (setChain aliceHooks (NumberId (Num 5)) firstState)
        = Inl (ChainNotAvailable (Num 5) mainnet [Num 1, Num 8453])
   \<and> fst (setChain aliceHooks (NumberId (Num 5)) firstState) = firstState\<lparr>settingChain := False\<rparr>"
    by (simp add: requestedChainId_def alice_chains)
  from 1 2 show ?thesis by simp
qed

text \<open>With a storage whose \<^verbatim>\<open>setItem\<close> throws, \<^verbatim>\<open>setChain({chainId: 8453})\<close>
  succeeds and selects 8453, and nothing is stored.\<close>

theorem setChain_storage_failure_counterexample:
  "snd (setChain aliceHooks (NumberId (Num 8453)) (firstState\<lparr>localStorage := fullStorage\<rparr>))
     = Inr True
   \<and> selectedChainId
        (fst (setChain aliceHooks (NumberId (Num 8453)) (firstState\<lparr>localStorage := fullStorage\<rparr>)))
     = Num 8453
   \<and> items (localStorage
        (fst (setChain aliceHooks (NumberId (Num 8453)) (firstState\<lparr>localStorage := fullStorage\<rparr>))))
        ''para_selected_chain_mainnet'' = None"
  using setChain_alice(2)
  by (simp add: setChain_result setAndPersistChainId_selected setAndPersistChainId_storage
      fullStorage_def requestedChainId_def alice_chains)

text \<open>
  Claim C9, at an input where the code departs from it.  The list of available chains
  ends in a comma, so its last entry parses to \<^verbatim>\<open>NaN\<close>; the stored value does not
  parse either.  \<^verbatim>\<open>getInitialChainId\<close> finds \<^verbatim>\<open>NaN\<close> in the list and returns it,
  where the claim has the default chain 1.
\<close>

theorem getInitialChainId_restores_NaN:
  "getInitialChainId trailingCommaHooks unparsableStorage = NaN
   \<and> defaultChainId trailingCommaHooks = Num 1
   \<and> availableChainIds trailingCommaHooks = [Num 1, Num 8453, NaN]"
proof -
  have stored: "getItem unparsableStorage (storageKey trailingCommaHooks) = Inr (Some ''abc'')"
    by (simp add: getItem_def storageKey_def networkName_def unparsableStorage_def
        trailingCommaHooks_def alice_defs)
  have parsed: "parseInt ''abc'' 10 = NaN"
    by (simp add: js_defs)
  show ?thesis
    by (simp add: getInitialChainId_def stored parsed trailing_chains includes_arr_def)
qed

text \<open>An external EVM account next to a connected embedded account with another
  address: the wallet state has the external address.\<close>

theorem walletState_first_match_wins_witness:
  "hasEvm (account externalAndEmbeddedHooks) = Some aliceAddress
   \<and> embedded (account externalAndEmbeddedHooks) \<noteq> None
   \<and> (\<exists>w. snd externalAndEmbedded = Some w \<and> accounts w = [aliceAddress]
            \<and> map snd (chains w) = [evm])"
proof -
  have e: "hasEvm (account externalAndEmbeddedHooks) = Some aliceAddress \<and> aliceAddress \<noteq> []"
    by (simp add: hasEvm_def evmAccount_def externalAndEmbeddedHooks_def externalEvmAccount_def
        alice_defs)
  have m: "embedded (account externalAndEmbeddedHooks) \<noteq> None"
    by (simp add: externalAndEmbeddedHooks_def externalEvmAccount_def alice_defs)
  from walletState_first_match_wins
         [of externalAndEmbeddedHooks "initialBridge externalAndEmbeddedHooks emptyStorage"] e
  have "\<exists>w. snd externalAndEmbedded = Some w \<and> accounts w = [aliceAddress]
            \<and> map snd (chains w) = [evm]"
    unfolding externalAndEmbedded_def by blast
  with e m show ?thesis by simp
qed

lemma alice_switched:
  "aliceSwitched =
     ((fst (setChain aliceHooks (NumberId (Num 8453)) firstState))
        \<lparr>providerStateRef := Some (snapshotAt (Num 8453) ''https://mainnet.base.org'')\<rparr>,
      Some (embeddedWallet aliceAddress (Num 8453) aliceProvider))"
proof -
  let ?s = "fst (setChain aliceHooks (NumberId (Num 8453)) firstState)"
  have sel: "selectedChainId ?s = Num 8453"
    using setChain_alice(2)
    by (simp add: setChain_result setAndPersistChainId_selected requestedChainId_def)
  have ref: "stableProviderRef ?s = Some aliceProvider"
    by (simp add: setChain_keeps firstState_fields)
  have "walletState (hooksWith (embeddedAccount aliceAddress)) ?s =
          (?s\<lparr>providerStateRef := Some (snapshotAt (Num 8453) ''https://mainnet.base.org'')\<rparr>,
           Some (embeddedWallet aliceAddress (Num 8453) aliceProvider))"
    by (subst walletState_embedded) (simp_all add: sel ref aliceAddress_def)
  then show ?thesis
    by (simp add: aliceSwitched_def alice_first aliceHooks_def)
qed

text \<open>Alice's wallet is resolved, chain 8453 is selected, the wallet state is
  recomputed: the provider object is the same, and \<^verbatim>\<open>eth_chainId\<close> is \<^verbatim>\<open>0x2105\<close>.\<close>

theorem stable_handle_until_disconnect_witness:
  "map_option provider (snd aliceFirst) = Some aliceProvider
   \<and> map_option provider (snd aliceSwitched) = Some aliceProvider
   \<and> stableProviderRef (fst aliceSwitched) = Some aliceProvider
   \<and> selectedChainId (fst aliceSwitched) = Num 8453
   \<and> request (exampleSdk ''0x00'') aliceProvider (fst aliceSwitched) chainIdRequest
        = Inr (JString ''0x2105'')"
proof -
  let ?s1' = "fst (setChain aliceHooks (NumberId (Num 8453)) firstState)"
  let ?s2 = "?s1'\<lparr>providerStateRef := Some (snapshotAt (Num 8453) ''https://mainnet.base.org'')\<rparr>"
  let ?w1 = "embeddedWallet aliceAddress (Num 1) aliceProvider"
  let ?w2 = "embeddedWallet aliceAddress (Num 8453) aliceProvider"
  have first: "walletState aliceHooks (initialBridge aliceHooks emptyStorage) = (firstState, Some ?w1)"
    using alice_first by (simp add: aliceFirst_def)
  have between: "stableProviderRef ?s1' = stableProviderRef firstState"
    by (simp add: setChain_keeps)
  have second: "walletState aliceHooks ?s1' = (?s2, Some ?w2)"
    using alice_switched by (simp add: aliceSwitched_def alice_first)
  have emb: "\<not> truthyString (hasEvm (account aliceHooks)) \<and> hasSolana (account aliceHooks) = None"
    by (simp add: hasEvm_def hasSolana_def evmAccount_def solanaAccount_def truthyString_def
        alice_defs)
  have sel: "selectedChainId ?s1' = Num 8453"
    using setChain_alice(2)
    by (simp add: setChain_result setAndPersistChainId_selected requestedChainId_def)
  from stable_handle_until_disconnect [OF first between second, of "exampleSdk ''0x00''" None] emb sel
  have "provider ?w2 = provider ?w1 \<and> stableProviderRef ?s2 = Some (provider ?w1)
      \<and> request (exampleSdk ''0x00'') (provider ?w2) ?s2 \<lparr>req_method = ''eth_chainId'', req_params = None\<rparr>
          = Inr (JString (''0x'' @ toString (Num 8453) 16))"
    by (auto simp: snapshotAt_def)
  then show ?thesis
    by (simp add: alice_first alice_switched embeddedWallet_def chainIdRequest_def hex_eval sel)
qed

text \<open>
  Within one mount, the recomputation after a \<^verbatim>\<open>disconnect\<close> returns another provider
  object than the one before it.  With an external EVM account on chain 56 the selected
  chain id is 1 and \<^verbatim>\<open>eth_chainId\<close> returns \<^verbatim>\<open>0x38\<close> when the account comes with
  embedded wallets, and throws for want of a signer when it does not.
\<close>

theorem stable_handle_counterexample:
  "map_option provider (snd aliceFirst) = Some aliceProvider
   \<and> map_option provider (snd aliceSecond) = Some reconnectedProvider
   \<and> reconnectedProvider \<noteq> aliceProvider
   \<and> selectedChainId (fst externalAndEmbedded) = Num 1
   \<and> request (exampleSdk ''0x00'') aliceProvider (fst externalAndEmbedded) chainIdRequest
        = Inr (JString ''0x38'')
   \<and> request (exampleSdk ''0x00'') aliceProvider (fst externalOnly) chainIdRequest
        = Inl SignerNotAvailable"
  by (simp add: alice_first alice_second embeddedWallet_def reconnectedProvider_def
      aliceProvider_def external_and_embedded external_only request_def chainIdRequest_def
      snapshotAt_def hex_eval)

lemma firstState_snapshot:
  "providerStateRef firstState = Some (snapshotAt (Num 1) ''https://ethereum-rpc.publicnode.com'')"
  "signer (snapshotAt c url)
     = Some \<lparr>signer_client = ParaClient (Some None),
             signer_provider = \<lparr>rpc_url = url, rpc_network = c\<rparr>\<rparr>"
  by (simp_all add: firstState_fields snapshotAt_def)

text \<open>Signatures ending in \<^verbatim>\<open>00\<close>, \<^verbatim>\<open>01\<close> and \<^verbatim>\<open>1c\<close>, through \<^verbatim>\<open>personal_sign\<close>
  and \<^verbatim>\<open>eth_signTypedData_v4\<close>.\<close>

theorem signature_recovery_byte_normalized_witness:
  "request (exampleSdk ''0xabcd00'') aliceProvider firstState signRequest
     = Inr (JString ''0xabcd1b'')
   \<and> request (exampleSdk ''0xabcd01'') aliceProvider firstState typedRequest
     = Inr (JString ''0xabcd1c'')
   \<and> request (exampleSdk ''0xabcd1c'') aliceProvider firstState signRequest
     = Inr (JString ''0xabcd1c'')"
proof -
  let ?sg = "\<lparr>signer_client = ParaClient (Some None),
              signer_provider = \<lparr>rpc_url = ''https://ethereum-rpc.publicnode.com'',
                                  rpc_network = Num 1\<rparr>\<rparr>"
  have a: "(req_method signRequest \<in> {''personal_sign'', ''eth_sign''}
            \<and> signMessage (exampleSdk raw) ?sg (param0 signRequest) = Inr raw)
         \<or> (req_method signRequest \<in> {''eth_signTypedData'', ''eth_signTypedData_v4''}
            \<and> signTypedData (exampleSdk raw) ?sg (param1 signRequest) = Inr raw)" for raw
    by (simp add: signRequest_def exampleSdk_def)
  have b: "(req_method typedRequest \<in> {''personal_sign'', ''eth_sign''}
            \<and> signMessage (exampleSdk raw) ?sg (param0 typedRequest) = Inr raw)
         \<or> (req_method typedRequest \<in> {''eth_signTypedData'', ''eth_signTypedData_v4''}
            \<and> signTypedData (exampleSdk raw) ?sg (param1 typedRequest) = Inr raw)" for raw
    by (simp add: typedRequest_def exampleSdk_def)
  have high: "parseInt (sliceLast2 ''0xabcd1c'') 16 = Num 28 \<and> (27::int) \<le> 28"
    by (simp add: js_defs)
  from signature_recovery_byte_normalized
         [OF firstState_snapshot(1) firstState_snapshot(2) a, of "''0xabcd00''" aliceProvider]
  have 1: "request (exampleSdk ''0xabcd00'') aliceProvider firstState signRequest
             = Inr (JString ''0xabcd1b'')"
    by (simp add: append_eq_Cons_conv)
  from signature_recovery_byte_normalized
         [OF firstState_snapshot(1) firstState_snapshot(2) b, of "''0xabcd01''" aliceProvider]
  have 2: "request (exampleSdk ''0xabcd01'') aliceProvider firstState typedRequest
             = Inr (JString ''0xabcd1c'')"
    by (simp add: append_eq_Cons_conv)
  from signature_recovery_byte_normalized
         [OF firstState_snapshot(1) firstState_snapshot(2) a, of "''0xabcd1c''" aliceProvider] high
  have 3: "request (exampleSdk ''0xabcd1c'') aliceProvider firstState signRequest
             = Inr (JString ''0xabcd1c'')"
    by blast
  from 1 2 3 show ?thesis by simp
qed

text \<open>Without a signer \<^verbatim>\<open>eth_chainId\<close> throws; with Alice's signer it returns
  \<^verbatim>\<open>0x1\<close>, \<^verbatim>\<open>eth_accounts\<close> returns one address and \<^verbatim>\<open>eth_blockNumber\<close> is forwarded.\<close>

theorem signer_guard_covers_every_method_witness:
  "request (exampleSdk ''0x00'') aliceProvider (fst externalOnly) chainIdRequest
     = Inl SignerNotAvailable
   \<and> request (exampleSdk ''0x00'') aliceProvider firstState chainIdRequest = Inr (JString ''0x1'')
   \<and> (\<exists>a. request (exampleSdk ''0x00'') aliceProvider firstState accountsRequest
            = Inr (JArray [JString a]))
   \<and> request (exampleSdk ''0x00'') aliceProvider firstState blockNumberRequest
     = Inr (JArray [JString ''eth_blockNumber''])"
proof -
  from signer_guard_covers_every_method
         [OF external_only(2), of "exampleSdk ''0x00''" aliceProvider chainIdRequest]
  have 1: "request (exampleSdk ''0x00'') aliceProvider (fst externalOnly) chainIdRequest
             = Inl SignerNotAvailable"
    by simp
  note g = signer_guard_covers_every_method
             [OF firstState_snapshot(1), of "exampleSdk ''0x00''" aliceProvider]
  from g [of chainIdRequest]
  have 2: "request (exampleSdk ''0x00'') aliceProvider firstState chainIdRequest
             = Inr (JString ''0x1'')"
    by (simp add: snapshotAt_def chainIdRequest_def hex_eval)
  from g [of accountsRequest]
  have 3: "\<exists>a. request (exampleSdk ''0x00'') aliceProvider firstState accountsRequest
            = Inr (JArray [JString a])"
    by (simp add: snapshotAt_def accountsRequest_def)
  from g [of blockNumberRequest]
  have 4: "request (exampleSdk ''0x00'') aliceProvider firstState blockNumberRequest
             = Inr (JArray [JString ''eth_blockNumber''])"
    by (simp add: snapshotAt_def blockNumberRequest_def exampleSdk_def paramsOf_def)
  from 1 2 3 4 show ?thesis by simp
qed

text \<open>An external EVM wallet with no embedded wallets: the wallet state is resolved and
  the snapshot is set, but it has no signer, and \<^verbatim>\<open>eth_chainId\<close>, \<^verbatim>\<open>eth_accounts\<close> and
  the forwarded \<^verbatim>\<open>eth_blockNumber\<close> all fail with the signer error.\<close>

theorem signer_guard_counterexample:
  "snd externalOnly \<noteq> None
   \<and> providerStateRef (fst externalOnly) \<noteq> None
   \<and> request (exampleSdk ''0x00'') aliceProvider (fst externalOnly) chainIdRequest
        = Inl SignerNotAvailable
   \<and> request (exampleSdk ''0x00'') aliceProvider (fst externalOnly) accountsRequest
        = Inl SignerNotAvailable
   \<and> request (exampleSdk ''0x00'') aliceProvider (fst externalOnly) blockNumberRequest
        = Inl SignerNotAvailable"
  by (simp add: external_only request_def)

lemma listening_eval:
  "reachable listening"
  "effectDeps listening = Some (Num 1)"
  "selectedChainId listening = Num 8453"
  "trace listening = []"
  "listenersOf listening ''chainChanged'' = [3, 7]"
proof -
  let ?s = "on ''chainChanged'' 7 (on ''chainChanged'' 3 mountedAlice)"
  have "reachable mountedAlice"
    unfolding mountedAlice_def by (rule reach_mount)
  then show "reachable listening"
    unfolding listening_def by (intro reach_setChain reach_on)
  show "effectDeps listening = Some (Num 1)"
    by (simp add: listening_def setChain_keeps on_def mounted_alice)
  have "includes_arr (availableChainIds aliceHooks) (requestedChainId (StringId ''0x2105''))"
    by (rule setChain_alice)
  then show "selectedChainId listening = Num 8453"
    by (simp add: listening_def setChain_result setAndPersistChainId_selected
        requestedChainId_def hex_eval)
  show "trace listening = []"
    by (simp add: listening_def setChain_keeps on_def mounted_alice firstState_fields)
  show "listenersOf listening ''chainChanged'' = [3, 7]"
    by (simp add: listening_def listenersOf_def setChain_keeps on_def mounted_alice
        firstState_fields)
qed

text \<open>Listeners 3 and 7 are registered, chain 8453 is selected: the next commit calls
  both with \<^verbatim>\<open>0x2105\<close>.\<close>

theorem chainChanged_emitted_on_change_witness:
  "trace (fst (render aliceHooks listening))
     = [ListenerCalled 3 ''0x2105'', ListenerCalled 7 ''0x2105'']
   \<and> committed (fst (render aliceHooks listening))"
proof -
  have changed: "selectedChainId listening \<noteq> Num 1"
    by (simp add: listening_eval)
  from chainChanged_emitted_on_change [OF listening_eval(1) listening_eval(2) changed, of aliceHooks]
  show ?thesis
    by (simp add: listening_eval hex_eval)
qed

text \<open>
  With a listener registered, chain 8453 is selected and then chain 1 again before the
  next render: the identifier has changed twice, it is again the one of the last commit,
  and the render calls no listener.
\<close>

theorem chainChanged_batched_counterexample:
  "selectedChainId (on ''chainChanged'' 3 mountedAlice) = Num 1
   \<and> snd switchedAway = Inr True
   \<and> selectedChainId (fst switchedAway) = Num 8453
   \<and> snd switchedBack = Inr True
   \<and> selectedChainId (fst switchedBack) = Num 1
   \<and> listenersOf (fst switchedBack) ''chainChanged'' = [3]
   \<and> trace (fst switchedBack) = []
   \<and> trace (fst (render aliceHooks (fst switchedBack))) = []"
proof -
  let ?s0 = "on ''chainChanged'' 3 mountedAlice"
  have s0: "selectedChainId ?s0 = Num 1" "effectDeps ?s0 = Some (Num 1)" "trace ?s0 = []"
    "listenersOf ?s0 ''chainChanged'' = [3]"
    by (simp_all add: on_def listenersOf_def mounted_alice firstState_fields)
  have inc: "includes_arr (availableChainIds aliceHooks) (requestedChainId (NumberId (Num 8453)))"
    "includes_arr (availableChainIds aliceHooks) (requestedChainId (NumberId (Num 1)))"
    by (simp_all add: alice_chains includes_arr_def requestedChainId_def)
  have went: "snd switchedAway = Inr True" "selectedChainId (fst switchedAway) = Num 8453"
    using inc(1)
    by (simp_all add: switchedAway_def setChain_result setAndPersistChainId_selected
        requestedChainId_def)
  have came: "snd switchedBack = Inr True" "selectedChainId (fst switchedBack) = Num 1"
    using inc(2)
    by (simp_all add: switchedBack_def setChain_result setAndPersistChainId_selected
        requestedChainId_def)
  have kept: "effectDeps (fst switchedBack) = Some (Num 1)" "trace (fst switchedBack) = []"
    "listenersOf (fst switchedBack) ''chainChanged'' = [3]"
    using s0 by (simp_all add: switchedBack_def switchedAway_def setChain_keeps listenersOf_def)
  obtain s1 w where r: "walletState aliceHooks (fst switchedBack) = (s1, w)"
    by (cases "walletState aliceHooks (fst switchedBack)")
  from r walletState_keeps [of aliceHooks "fst switchedBack"]
  have "selectedChainId s1 = Num 1" "effectDeps s1 = Some (Num 1)" "trace s1 = []"
    by (simp_all add: came kept)
  then have "trace (useEffect_chainChanged s1) = []"
    by (simp add: useEffect_chainChanged_def)
  with r have "trace (fst (render aliceHooks (fst switchedBack))) = []"
    by (simp add: render_def)
  with s0 went came kept show ?thesis by simp
qed

text \<open>
  Claim C7, at an input where the code departs from it.  Alice's wallet is resolved and
  the provider object is created; then, with no disconnect of the bridge, Bob's wallet is
  resolved.  The wallet state now has Bob's address and the same provider object, and
  \<^verbatim>\<open>eth_accounts\<close> on it still returns Alice's address, the one its closure holds.
\<close>

theorem eth_accounts_returns_stale_address:
  "map_option provider (snd aliceFirst) = Some aliceProvider
   \<and> map_option provider (snd bobAfterAlice) = Some aliceProvider
   \<and> map_option accounts (snd bobAfterAlice) = Some [bobAddress]
   \<and> request (exampleSdk ''0x00'') aliceProvider (fst bobAfterAlice) accountsRequest
        = Inr (JArray [JString aliceAddress])
   \<and> bobAddress \<noteq> aliceAddress"
  by (simp add: alice_first bob_after_alice embeddedWallet_def request_def firstState_snapshot
      accountsRequest_def aliceProvider_def)
     (simp add: aliceAddress_def bobAddress_def)

lemma firstState_allocated: "allocated firstState"
  by (simp add: allocated_def firstState_fields aliceProvider_def)

text \<open>\<^verbatim>\<open>disconnect\<close> with a client whose \<^verbatim>\<open>logout\<close> resolves, with a client that has
  none, and with one whose \<^verbatim>\<open>logout\<close> rejects.\<close>

theorem disconnect_logs_out_then_discards_witness:
  "snd (disconnect aliceHooks firstState) = Inr []
   \<and> trace (fst (disconnect aliceHooks firstState)) = [LogoutCalled]
   \<and> stableProviderRef (fst (disconnect aliceHooks firstState)) = None
   \<and> providerStateRef (fst (disconnect aliceHooks firstState)) = None
   \<and> map_option provider (snd aliceSecond) = Some reconnectedProvider
   \<and> stableProviderRef firstState \<noteq> Some reconnectedProvider
   \<and> snd (disconnect noLogoutHooks firstState) = Inr []
   \<and> trace (fst (disconnect noLogoutHooks firstState)) = []
   \<and> stableProviderRef (fst (disconnect noLogoutHooks firstState)) = None
   \<and> snd (disconnect failingLogoutHooks firstState) = Inl (Upstream ''logout'')
   \<and> trace (fst (disconnect failingLogoutHooks firstState)) = [LogoutCalled]
   \<and> stableProviderRef (fst (disconnect failingLogoutHooks firstState)) = Some aliceProvider"
proof -
  note d = disconnect_logs_out_then_discards [OF firstState_allocated surjective_pairing]
  have second: "walletState aliceHooks (fst (disconnect aliceHooks firstState))
                  = (fst aliceSecond, Some (embeddedWallet aliceAddress (Num 1) reconnectedProvider))"
    using alice_second by (simp add: aliceSecond_def aliceDisconnected_def alice_first)
  have lo: "logoutOf aliceHooks \<noteq> None" "logoutOf aliceHooks = None \<or> logoutOf aliceHooks = Some None"
    by (simp_all add: logout_eval)
  from d [of aliceHooks] lo
  have base: "snd (disconnect aliceHooks firstState) = Inr []
   \<and> trace (fst (disconnect aliceHooks firstState)) = trace firstState @ [LogoutCalled]
   \<and> stableProviderRef (fst (disconnect aliceHooks firstState)) = None
   \<and> providerStateRef (fst (disconnect aliceHooks firstState)) = None
   \<and> (\<forall>h2 s2 w2. walletState h2 (fst (disconnect aliceHooks firstState)) = (s2, Some w2) \<longrightarrow>
          provider w2 = \<lparr>object_id = nextObject firstState, closure_address = hd (accounts w2)\<rparr>
          \<and> stableProviderRef firstState \<noteq> Some (provider w2)
          \<and> stableProviderRef s2 = Some (provider w2))"
    by blast
  with second
  have "stableProviderRef firstState
          \<noteq> Some (provider (embeddedWallet aliceAddress (Num 1) reconnectedProvider))"
    by blast
  then have fresh: "stableProviderRef firstState \<noteq> Some reconnectedProvider"
    by (simp add: embeddedWallet_def)
  from base have base': "snd (disconnect aliceHooks firstState) = Inr []
   \<and> trace (fst (disconnect aliceHooks firstState)) = trace firstState @ [LogoutCalled]
   \<and> stableProviderRef (fst (disconnect aliceHooks firstState)) = None
   \<and> providerStateRef (fst (disconnect aliceHooks firstState)) = None"
    by blast
  from base' fresh
  have 1: "snd (disconnect aliceHooks firstState) = Inr []
   \<and> trace (fst (disconnect aliceHooks firstState)) = [LogoutCalled]
   \<and> stableProviderRef (fst (disconnect aliceHooks firstState)) = None
   \<and> providerStateRef (fst (disconnect aliceHooks firstState)) = None
   \<and> stableProviderRef firstState \<noteq> Some reconnectedProvider"
    by (simp add: firstState_fields(5))
  have lo2: "logoutOf noLogoutHooks = None"
    by (simp add: logoutOf_def noLogoutHooks_def alice_defs)
  have lo3: "logoutOf failingLogoutHooks = Some (Some (Upstream ''logout''))"
    by (simp add: logoutOf_def failingLogoutHooks_def alice_defs)
  from d [of noLogoutHooks]
  have 2: "snd (disconnect noLogoutHooks firstState) = Inr []
   \<and> trace (fst (disconnect noLogoutHooks firstState)) = []
   \<and> stableProviderRef (fst (disconnect noLogoutHooks firstState)) = None"
    by (simp add: lo2 firstState_fields)
  from d [of failingLogoutHooks]
  have 3: "snd (disconnect failingLogoutHooks firstState) = Inl (Upstream ''logout'')
   \<and> trace (fst (disconnect failingLogoutHooks firstState)) = [LogoutCalled]
   \<and> stableProviderRef (fst (disconnect failingLogoutHooks firstState)) = Some aliceProvider"
    by (simp add: lo3 firstState_fields)
  from 1 2 3 show ?thesis
    by (simp add: alice_second embeddedWallet_def)
qed

lemma signed_out:
  "snd (walletState signedOutHooks s) = None"
  by (simp add: walletState_def resolve_defs signedOutHooks_def alice_defs truthyString_def)

text \<open>After Alice's disconnect, \<^verbatim>\<open>eth_chainId\<close>, a forwarded method and, after a
  recomputation that finds nobody signed in, \<^verbatim>\<open>personal_sign\<close> are all rejected.\<close>

theorem request_rejects_after_disconnect_witness:
  "request (exampleSdk ''0x00'') aliceProvider aliceDisconnected chainIdRequest
     = Inl ProviderStateNotInitialized
   \<and> request (exampleSdk ''0x00'') aliceProvider aliceDisconnected blockNumberRequest
     = Inl ProviderStateNotInitialized
   \<and> request (exampleSdk ''0x00'') aliceProvider
        (fst (walletState signedOutHooks aliceDisconnected)) signRequest
     = Inl ProviderStateNotInitialized"
proof -
  have d: "disconnect aliceHooks firstState = (aliceDisconnected, Inr [])"
    using alice_disconnected by (simp add: aliceDisconnected_def alice_first)
  note r = request_rejects_after_disconnect
             [OF d, where sdk = "exampleSdk ''0x00''" and p = aliceProvider]
  from r [where rq = chainIdRequest] r [where rq = blockNumberRequest]
    r [where rq = signRequest and h' = signedOutHooks] signed_out [of aliceDisconnected]
  show ?thesis by simp
qed


end
